theory Spec2Isabelle
  imports Complex_Main "HOL-Library.AList" "HOL-Library.Char_ord" "HOL-Library.List_Lexorder"
begin

section \<open>Conventions of the embedding\<close>

text \<open>
  The development embeds the validation engine (\<^verbatim>\<open>src/validation/engine.ts\<close>), the rule
  catalogue, the scorecard service and the alerts service of the lifecycle-gate governance
  application.

  \<^item> A JavaScript \<^verbatim>\<open>number\<close> that only ever counts is a \<open>nat\<close>; a number that is
    divided or compared is a \<open>real\<close> (rounding of IEEE doubles is not modelled).
  \<^item> A \<^verbatim>\<open>Date\<close> is its \<^verbatim>\<open>getTime()\<close> value, an \<open>int\<close> of milliseconds.
    Every operation that reads the clock takes the reading as its argument \<open>now\<close>; the
    successive readings inside one call are taken to be the same instant.
  \<^item> \<^verbatim>\<open>generateId()\<close> is random, so the identifier it returns is an argument of the
    operation that calls it.
  \<^item> A \<^verbatim>\<open>Map\<close> is an association list in insertion order: \<^verbatim>\<open>get\<close> is \<open>map_of\<close>,
    \<^verbatim>\<open>set\<close> is \<open>AList.update\<close> (overwrite in place, or append), \<^verbatim>\<open>delete\<close> is
    \<open>AList.delete\<close>.
  \<^item> Violation objects are shared between the scorecard's embedded list and the
    violation log, so they live in an explicit heap (a list indexed by address) and both
    lists hold addresses.
  \<^item> Calendar arithmetic on dates depends on the local time zone of the process and is a
    parameter (\<open>calendar\<close>).
\<close>

section \<open>Types of the compliance model\<close>

datatype ObjectType = Contact | Deal

datatype ViolationType =
    MissingRequiredField
  | InvalidStageProgression
  | SkippedStage
  | DependencyNotMet
  | ConditionFailed
  | BackwardProgression

datatype Severity = Low | Medium | High | Critical

datatype Trend = Improving | Stable | Declining

datatype PeriodType = Daily | Weekly | Monthly | Quarterly

record ScorecardPeriod =
  startDate :: int
  endDate :: int
  periodType :: PeriodType

record ScorecardMetrics =
  totalStageTransitions :: nat
  validTransitions :: nat
  invalidAttempts :: nat
  requiredFieldsCompliance :: real
  averageStageVelocity :: real
  dealsStagedCorrectly :: nat
  contactsStagedCorrectly :: nat

record ComplianceViolation =
  v_id :: string
  v_timestamp :: int
  v_objectType :: ObjectType
  v_objectId :: string
  violationType :: ViolationType
  fromStage :: string
  toStage :: string
  missingFields :: "string list option"
  ruleId :: string
  ruleName :: string
  severity :: Severity
  resolved :: bool
  resolvedAt :: "int option"

text \<open>The field \<open>violations\<close> holds the addresses of the violation objects.\<close>

record RepScorecard =
  userId :: string
  userName :: string
  period :: ScorecardPeriod
  metrics :: ScorecardMetrics
  complianceScore :: real
  trend :: Trend
  violations :: "nat list"
  lastUpdated :: int

text \<open>
  The module state of the scorecard service: the two maps \<^verbatim>\<open>scorecardStore\<close> and
  \<^verbatim>\<open>violationStore\<close>, and the heap of violation objects.
\<close>

record ScorecardState =
  scorecardStore :: "(string \<times> RepScorecard) list"
  violationStore :: "(string \<times> nat list) list"
  heap :: "ComplianceViolation list"

definition emptyState :: ScorecardState where
  "emptyState = \<lparr>scorecardStore = [], violationStore = [], heap = []\<rparr>"

definition deref :: "ComplianceViolation list \<Rightarrow> nat \<Rightarrow> ComplianceViolation option" where
  "deref h a = (if a < length h then Some (h ! a) else None)"

text \<open>
  Date arithmetic in the local time zone: \<open>addDays t n\<close> is
  \<^verbatim>\<open>d.setDate(d.getDate() + n)\<close>, \<open>getDay\<close> the day of the week (Sunday is 0),
  \<open>startOfDay\<close> is \<^verbatim>\<open>setHours(0, 0, 0, 0)\<close> and \<open>endOfDay\<close> is
  \<^verbatim>\<open>setHours(23, 59, 59, 999)\<close>.
\<close>

record calendar =
  addDays :: "int \<Rightarrow> int \<Rightarrow> int"
  getDay :: "int \<Rightarrow> int"
  startOfDay :: "int \<Rightarrow> int"
  endOfDay :: "int \<Rightarrow> int"

text \<open>The calendar of a process whose time zone is UTC (1 January 1970 was a Thursday).\<close>

definition utcCalendar :: calendar where
  "utcCalendar =
     \<lparr>addDays = (\<lambda>t n. t + n * 86400000),
      getDay = (\<lambda>t. (t div 86400000 + 4) mod 7),
      startOfDay = (\<lambda>t. t - t mod 86400000),
      endOfDay = (\<lambda>t. t - t mod 86400000 + 86399999)\<rparr>"

text \<open>JavaScript truthiness of an optional string: defined and not empty.\<close>

definition truthy :: "string option \<Rightarrow> bool" where
  "truthy s = (case s of None \<Rightarrow> False | Some x \<Rightarrow> x \<noteq> [])"

section \<open>Scorecard service\<close>

definition getCurrentPeriod :: "calendar \<Rightarrow> int \<Rightarrow> ScorecardPeriod" where
  "getCurrentPeriod cal now =
     (let startOfWeek = startOfDay cal (addDays cal now (- getDay cal now));
          endOfWeek = endOfDay cal (addDays cal startOfWeek 6)
      in \<lparr>startDate = startOfWeek, endDate = endOfWeek, periodType = Weekly\<rparr>)"

definition createEmptyMetrics :: ScorecardMetrics where
  "createEmptyMetrics =
     \<lparr>totalStageTransitions = 0, validTransitions = 0, invalidAttempts = 0,
      requiredFieldsCompliance = 100, averageStageVelocity = 0,
      dealsStagedCorrectly = 0, contactsStagedCorrectly = 0\<rparr>"

definition getOrCreateScorecard ::
  "calendar \<Rightarrow> int \<Rightarrow> string \<Rightarrow> string \<Rightarrow> ScorecardState \<Rightarrow> RepScorecard \<times> ScorecardState" where
  "getOrCreateScorecard cal now uid uname s =
     (case map_of (scorecardStore s) uid of
        Some existing \<Rightarrow> (existing, s)
      | None \<Rightarrow>
          (let newScorecard =
                 \<lparr>userId = uid, userName = uname, period = getCurrentPeriod cal now,
                  metrics = createEmptyMetrics, complianceScore = 100, trend = Stable,
                  violations = [], lastUpdated = now\<rparr>
           in (newScorecard,
               s\<lparr>scorecardStore := AList.update uid newScorecard (scorecardStore s)\<rparr>)))"

definition calculateComplianceScore :: "ScorecardMetrics \<Rightarrow> real" where
  "calculateComplianceScore m =
     (if totalStageTransitions m = 0 then 100
      else (let transitionScore =
                  (real (validTransitions m) / real (totalStageTransitions m)) * 100;
                fieldScore = requiredFieldsCompliance m
            in transitionScore * 0.6 + fieldScore * 0.4))"

definition userLog :: "ScorecardState \<Rightarrow> string \<Rightarrow> nat list" where
  "userLog s uid = (case map_of (violationStore s) uid of None \<Rightarrow> [] | Some l \<Rightarrow> l)"

definition isRecentUnresolved :: "ComplianceViolation list \<Rightarrow> int \<Rightarrow> nat \<Rightarrow> bool" where
  "isRecentUnresolved h oneWeekAgo a =
     (case deref h a of None \<Rightarrow> False
      | Some v \<Rightarrow> v_timestamp v \<ge> oneWeekAgo \<and> \<not> resolved v)"

definition isOlderUnresolved :: "ComplianceViolation list \<Rightarrow> int \<Rightarrow> nat \<Rightarrow> bool" where
  "isOlderUnresolved h oneWeekAgo a =
     (case deref h a of None \<Rightarrow> False
      | Some v \<Rightarrow> v_timestamp v < oneWeekAgo \<and> \<not> resolved v)"

definition calculateTrend :: "calendar \<Rightarrow> int \<Rightarrow> ScorecardState \<Rightarrow> string \<Rightarrow> Trend" where
  "calculateTrend cal now s uid =
     (let vs = userLog s uid
      in if length vs < 5 then Stable
         else (let oneWeekAgo = addDays cal now (- 7);
                   recentViolations = length (filter (isRecentUnresolved (heap s) oneWeekAgo) vs);
                   olderViolations = length (filter (isOlderUnresolved (heap s) oneWeekAgo) vs)
               in if recentViolations < olderViolations then Improving
                  else if recentViolations > olderViolations then Declining
                  else Stable))"

definition determineSeverity :: "nat \<Rightarrow> Severity" where
  "determineSeverity missingFieldCount =
     (if missingFieldCount = 0 then Low
      else if missingFieldCount \<le> 2 then Medium
      else if missingFieldCount \<le> 4 then High
      else Critical)"

definition fieldCount :: "string list option \<Rightarrow> nat" where
  "fieldCount mf = (case mf of None \<Rightarrow> 0 | Some fs \<Rightarrow> length fs)"

text \<open>
  \<open>recordStageTransition\<close>: the scorecard object is mutated in place, which the model
  writes back under the same key; a new violation object is allocated at the end of the
  heap and its address pushed on both lists.
\<close>

definition recordStageTransition ::
  "calendar \<Rightarrow> int \<Rightarrow> string \<Rightarrow> string \<Rightarrow> string \<Rightarrow> ObjectType \<Rightarrow> string \<Rightarrow> string \<Rightarrow> string \<Rightarrow>
   bool \<Rightarrow> string list option \<Rightarrow> string option \<Rightarrow> string option \<Rightarrow> ScorecardState \<Rightarrow> ScorecardState" where
  "recordStageTransition cal now newId uid uname objType objId fromS toS isValid mFields rId rName s =
     (let (scorecard, s1) = getOrCreateScorecard cal now uid uname s;
          m1 = (metrics scorecard)\<lparr>totalStageTransitions := totalStageTransitions (metrics scorecard) + 1\<rparr>;
          (m2, vlist, s2) =
            (if isValid then
               (let mv = m1\<lparr>validTransitions := validTransitions m1 + 1\<rparr>
                in (if objType = Contact
                    then mv\<lparr>contactsStagedCorrectly := contactsStagedCorrectly mv + 1\<rparr>
                    else mv\<lparr>dealsStagedCorrectly := dealsStagedCorrectly mv + 1\<rparr>,
                    violations scorecard, s1))
             else
               (let mi = m1\<lparr>invalidAttempts := invalidAttempts m1 + 1\<rparr>
                in if truthy rId \<and> truthy rName then
                     (let violation =
                            \<lparr>v_id = newId, v_timestamp = now, v_objectType = objType,
                             v_objectId = objId,
                             violationType = (if fieldCount mFields \<noteq> 0 then MissingRequiredField
                                              else InvalidStageProgression),
                             fromStage = fromS, toStage = toS, missingFields = mFields,
                             ruleId = the rId, ruleName = the rName,
                             severity = determineSeverity (fieldCount mFields),
                             resolved = False, resolvedAt = None\<rparr>;
                          addr = length (heap s1)
                      in (mi, violations scorecard @ [addr],
                          s1\<lparr>violationStore := AList.update uid (userLog s1 uid @ [addr]) (violationStore s1),
                             heap := heap s1 @ [violation]\<rparr>))
                   else (mi, violations scorecard, s1)));
          scorecard' = scorecard\<lparr>metrics := m2, violations := vlist,
                                 complianceScore := calculateComplianceScore m2,
                                 trend := calculateTrend cal now s2 uid,
                                 lastUpdated := now\<rparr>
      in s2\<lparr>scorecardStore := AList.update uid scorecard' (scorecardStore s2)\<rparr>)"

definition updateFieldsCompliance ::
  "calendar \<Rightarrow> int \<Rightarrow> string \<Rightarrow> string \<Rightarrow> real \<Rightarrow> real \<Rightarrow> ScorecardState \<Rightarrow> ScorecardState" where
  "updateFieldsCompliance cal now uid uname totalFields compliantFields s =
     (let (scorecard, s1) = getOrCreateScorecard cal now uid uname s;
          m = (if totalFields > 0
               then (metrics scorecard)\<lparr>requiredFieldsCompliance := (compliantFields / totalFields) * 100\<rparr>
               else metrics scorecard);
          scorecard' = scorecard\<lparr>metrics := m, lastUpdated := now\<rparr>
      in s1\<lparr>scorecardStore := AList.update uid scorecard' (scorecardStore s1)\<rparr>)"

definition getScorecard :: "ScorecardState \<Rightarrow> string \<Rightarrow> RepScorecard option" where
  "getScorecard s uid = map_of (scorecardStore s) uid"

text \<open>
  \<^verbatim>\<open>Array.from(values()).sort(cmp)\<close> sorts a fresh array, stably, by descending score.
\<close>

definition getAllScorecards :: "ScorecardState \<Rightarrow> RepScorecard list" where
  "getAllScorecards s = sort_key (\<lambda>c. - complianceScore c) (map snd (scorecardStore s))"

record ViolationQuery =
  q_resolved :: "bool option"
  q_objectType :: "ObjectType option"
  q_limit :: "int option"

definition noOptions :: ViolationQuery where
  "noOptions = \<lparr>q_resolved = None, q_objectType = None, q_limit = None\<rparr>"

text \<open>\<^verbatim>\<open>xs.slice(0, n)\<close>: a negative \<open>n\<close> counts from the end.\<close>

definition slice0 :: "'a list \<Rightarrow> int \<Rightarrow> 'a list" where
  "slice0 xs n = (if n < 0 then take (nat (int (length xs) + n)) xs else take (nat n) xs)"

definition timestampAt :: "ComplianceViolation list \<Rightarrow> nat \<Rightarrow> int" where
  "timestampAt h a = (case deref h a of None \<Rightarrow> 0 | Some v \<Rightarrow> v_timestamp v)"

text \<open>
  \<^verbatim>\<open>Array.prototype.sort\<close> with the comparator \<^verbatim>\<open>b.timestamp - a.timestamp\<close>: a stable
  sort by descending timestamp.
\<close>

definition sortNewestFirst :: "ComplianceViolation list \<Rightarrow> nat list \<Rightarrow> nat list" where
  "sortNewestFirst h vs = sort_key (\<lambda>a. - timestampAt h a) vs"

text \<open>
  \<open>getUserViolations\<close>. The local variable \<^verbatim>\<open>violations\<close> starts as the array stored in
  \<^verbatim>\<open>violationStore\<close> itself (or a fresh empty array when the user has none); each
  \<^verbatim>\<open>filter\<close> replaces it by a fresh array. \<^verbatim>\<open>sort\<close> works in place, so when no filter
  ran it reorders the stored array: the flag \<open>aliased\<close> records whether the variable still
  is the stored array, and the model then writes the sorted list back.
\<close>

definition getUserViolations ::
  "ScorecardState \<Rightarrow> string \<Rightarrow> ViolationQuery \<Rightarrow> nat list \<times> ScorecardState" where
  "getUserViolations s uid options =
     (let stored = map_of (violationStore s) uid;
          (vs0, aliased0) = (case stored of None \<Rightarrow> ([], False) | Some l \<Rightarrow> (l, True));
          (vs1, aliased1) =
            (case q_resolved options of
               None \<Rightarrow> (vs0, aliased0)
             | Some r \<Rightarrow>
                 (filter (\<lambda>a. case deref (heap s) a of None \<Rightarrow> False | Some v \<Rightarrow> resolved v = r) vs0,
                  False));
          (vs2, aliased2) =
            (case q_objectType options of
               None \<Rightarrow> (vs1, aliased1)
             | Some t \<Rightarrow>
                 (filter (\<lambda>a. case deref (heap s) a of None \<Rightarrow> False | Some v \<Rightarrow> v_objectType v = t) vs1,
                  False));
          sorted = sortNewestFirst (heap s) vs2;
          s' = (if aliased2 then s\<lparr>violationStore := AList.update uid sorted (violationStore s)\<rparr> else s);
          result = (case q_limit options of
                      None \<Rightarrow> sorted
                    | Some n \<Rightarrow> if n \<noteq> 0 then slice0 sorted n else sorted)
      in (result, s'))"

definition findById :: "ComplianceViolation list \<Rightarrow> string \<Rightarrow> nat list \<Rightarrow> nat option" where
  "findById h vid vs =
     find (\<lambda>a. case deref h a of None \<Rightarrow> False | Some v \<Rightarrow> v_id v = vid) vs"

definition markResolved :: "int \<Rightarrow> nat \<Rightarrow> ComplianceViolation list \<Rightarrow> ComplianceViolation list" where
  "markResolved now a h = h[a := (h ! a)\<lparr>resolved := True, resolvedAt := Some now\<rparr>]"

definition resolveViolation ::
  "int \<Rightarrow> string \<Rightarrow> string \<Rightarrow> ScorecardState \<Rightarrow> bool \<times> ScorecardState" where
  "resolveViolation now uid vid s =
     (case map_of (violationStore s) uid of
        None \<Rightarrow> (False, s)
      | Some vs \<Rightarrow>
          (case findById (heap s) vid vs of
             None \<Rightarrow> (False, s)
           | Some a \<Rightarrow>
               (let h1 = markResolved now a (heap s);
                    h2 = (case map_of (scorecardStore s) uid of
                            None \<Rightarrow> h1
                          | Some scorecard \<Rightarrow>
                              (case findById h1 vid (violations scorecard) of
                                 None \<Rightarrow> h1
                               | Some b \<Rightarrow> markResolved now b h1))
                in (True, s\<lparr>heap := h2\<rparr>))))"

definition resetScorecardForNewPeriod :: "calendar \<Rightarrow> int \<Rightarrow> string \<Rightarrow> ScorecardState \<Rightarrow> ScorecardState" where
  "resetScorecardForNewPeriod cal now uid s =
     (case map_of (scorecardStore s) uid of
        None \<Rightarrow> s
      | Some scorecard \<Rightarrow>
          s\<lparr>scorecardStore :=
               AList.update uid
                 (scorecard\<lparr>period := getCurrentPeriod cal now, metrics := createEmptyMetrics,
                             complianceScore := 100, violations := [], lastUpdated := now\<rparr>)
                 (scorecardStore s)\<rparr>)"

subsection \<open>Sequences of recorded transitions\<close>

text \<open>One call of \<open>recordStageTransition\<close>, with its clock reading and generated id.\<close>

record TransitionCall =
  c_now :: int
  c_newId :: string
  c_userId :: string
  c_userName :: string
  c_objectType :: ObjectType
  c_objectId :: string
  c_fromStage :: string
  c_toStage :: string
  c_isValid :: bool
  c_missingFields :: "string list option"
  c_ruleId :: "string option"
  c_ruleName :: "string option"

definition applyCall :: "calendar \<Rightarrow> TransitionCall \<Rightarrow> ScorecardState \<Rightarrow> ScorecardState" where
  "applyCall cal c s =
     recordStageTransition cal (c_now c) (c_newId c) (c_userId c) (c_userName c) (c_objectType c)
       (c_objectId c) (c_fromStage c) (c_toStage c) (c_isValid c) (c_missingFields c)
       (c_ruleId c) (c_ruleName c) s"

fun recordAll :: "calendar \<Rightarrow> TransitionCall list \<Rightarrow> ScorecardState \<Rightarrow> ScorecardState" where
  "recordAll cal [] s = s"
| "recordAll cal (c # cs) s = recordAll cal cs (applyCall cal c s)"

text \<open>The metrics a user has: those of the scorecard, or the initial ones before it exists.\<close>

definition metricsOf :: "ScorecardState \<Rightarrow> string \<Rightarrow> ScorecardMetrics" where
  "metricsOf s uid = (case getScorecard s uid of None \<Rightarrow> createEmptyMetrics | Some c \<Rightarrow> metrics c)"

text \<open>How many calls of a sequence are for a user, and how many of them valid or invalid.\<close>

definition callsFor :: "string \<Rightarrow> TransitionCall list \<Rightarrow> nat" where
  "callsFor uid cs = length (filter (\<lambda>c. c_userId c = uid) cs)"

definition validCallsFor :: "string \<Rightarrow> TransitionCall list \<Rightarrow> nat" where
  "validCallsFor uid cs = length (filter (\<lambda>c. c_userId c = uid \<and> c_isValid c) cs)"

definition invalidCallsFor :: "string \<Rightarrow> TransitionCall list \<Rightarrow> nat" where
  "invalidCallsFor uid cs = length (filter (\<lambda>c. c_userId c = uid \<and> \<not> c_isValid c) cs)"

text \<open>The stored score of a user is the one the formula gives for the stored metrics.\<close>

definition scoreFresh :: "ScorecardState \<Rightarrow> string \<Rightarrow> bool" where
  "scoreFresh s uid =
     (case getScorecard s uid of
        None \<Rightarrow> True
      | Some c \<Rightarrow> complianceScore c = calculateComplianceScore (metrics c))"

section \<open>Alerts service\<close>

datatype AlertType =
    StageGateViolation
  | RequiredFieldMissing
  | ComplianceThreshold
  | SlaBreach
  | BulkViolation
  | SystemError

datatype AlertSeverity = AlertInfo | AlertWarning | AlertError | AlertCritical

definition severityName :: "AlertSeverity \<Rightarrow> string" where
  "severityName v =
     (case v of AlertInfo \<Rightarrow> ''info'' | AlertWarning \<Rightarrow> ''warning''
      | AlertError \<Rightarrow> ''error'' | AlertCritical \<Rightarrow> ''critical'')"

datatype MetaValue = MetaString string | MetaStrings "string list" | MetaUndefined

record GovernanceAlert =
  a_id :: string
  a_type :: AlertType
  a_severity :: AlertSeverity
  a_title :: string
  a_message :: string
  a_objectType :: ObjectType
  a_objectId :: string
  a_userId :: string
  a_timestamp :: int
  acknowledged :: bool
  acknowledgedBy :: "string option"
  acknowledgedAt :: "int option"
  metadata :: "(string \<times> MetaValue) list option"

text \<open>
  The module state of the alerts service: the primary map \<^verbatim>\<open>alertStore\<close> and the two
  indices, which hold alert ids only.
\<close>

record AlertState =
  alertStore :: "(string \<times> GovernanceAlert) list"
  alertsByPortal :: "(int \<times> string list) list"
  alertsByUser :: "(string \<times> string list) list"

definition idsOf :: "('k \<times> string list) list \<Rightarrow> 'k \<Rightarrow> string list" where
  "idsOf index k = (case map_of index k of None \<Rightarrow> [] | Some l \<Rightarrow> l)"

text \<open>
  \<open>createAlert\<close>: the argument \<open>alert\<close> carries the caller's fields; its \<open>a_id\<close>,
  \<open>a_timestamp\<close> and \<open>acknowledged\<close> are overwritten.
\<close>

definition createAlert ::
  "int \<Rightarrow> string \<Rightarrow> int \<Rightarrow> GovernanceAlert \<Rightarrow> AlertState \<Rightarrow> GovernanceAlert \<times> AlertState" where
  "createAlert now newId portalId alert s =
     (let newAlert = alert\<lparr>a_id := newId, a_timestamp := now, acknowledged := False\<rparr>;
          store = AList.update newId newAlert (alertStore s);
          portalAlerts = idsOf (alertsByPortal s) portalId @ [newId];
          userAlerts = idsOf (alertsByUser s) (a_userId alert) @ [newId]
      in (newAlert,
          \<lparr>alertStore = store,
           alertsByPortal = AList.update portalId portalAlerts (alertsByPortal s),
           alertsByUser = AList.update (a_userId alert) userAlerts (alertsByUser s)\<rparr>))"

definition getAlert :: "AlertState \<Rightarrow> string \<Rightarrow> GovernanceAlert option" where
  "getAlert s alertId = map_of (alertStore s) alertId"

record PortalAlertQuery =
  pq_acknowledged :: "bool option"
  pq_severity :: "string option"
  pq_type :: "AlertType option"
  pq_limit :: "int option"

record UserAlertQuery =
  uq_acknowledged :: "bool option"
  uq_limit :: "int option"

definition sortAlertsNewestFirst :: "GovernanceAlert list \<Rightarrow> GovernanceAlert list" where
  "sortAlertsNewestFirst alerts = sort_key (\<lambda>a. - a_timestamp a) alerts"

definition applyLimit :: "int option \<Rightarrow> 'a list \<Rightarrow> 'a list" where
  "applyLimit limit xs = (case limit of None \<Rightarrow> xs | Some n \<Rightarrow> if n \<noteq> 0 then slice0 xs n else xs)"

text \<open>
  The two alert queries build a fresh array with \<^verbatim>\<open>map\<close> and \<^verbatim>\<open>filter(Boolean)\<close>
  (ids whose alert is gone are dropped) and sort that array; they write nothing.
\<close>

definition getPortalAlerts :: "AlertState \<Rightarrow> int \<Rightarrow> PortalAlertQuery \<Rightarrow> GovernanceAlert list" where
  "getPortalAlerts s portalId options =
     (let alertIds = idsOf (alertsByPortal s) portalId;
          alerts0 = List.map_filter (map_of (alertStore s)) alertIds;
          alerts1 = (case pq_acknowledged options of
                       None \<Rightarrow> alerts0
                     | Some b \<Rightarrow> filter (\<lambda>a. acknowledged a = b) alerts0);
          alerts2 = (if truthy (pq_severity options)
                     then filter (\<lambda>a. Some (severityName (a_severity a)) = pq_severity options) alerts1
                     else alerts1);
          alerts3 = (case pq_type options of
                       None \<Rightarrow> alerts2
                     | Some t \<Rightarrow> filter (\<lambda>a. a_type a = t) alerts2)
      in applyLimit (pq_limit options) (sortAlertsNewestFirst alerts3))"

definition getUserAlerts :: "AlertState \<Rightarrow> string \<Rightarrow> UserAlertQuery \<Rightarrow> GovernanceAlert list" where
  "getUserAlerts s uid options =
     (let alertIds = idsOf (alertsByUser s) uid;
          alerts0 = List.map_filter (map_of (alertStore s)) alertIds;
          alerts1 = (case uq_acknowledged options of
                       None \<Rightarrow> alerts0
                     | Some b \<Rightarrow> filter (\<lambda>a. acknowledged a = b) alerts0)
      in applyLimit (uq_limit options) (sortAlertsNewestFirst alerts1))"

definition acknowledgeAlert :: "int \<Rightarrow> string \<Rightarrow> string \<Rightarrow> AlertState \<Rightarrow> bool \<times> AlertState" where
  "acknowledgeAlert now alertId ackBy s =
     (case map_of (alertStore s) alertId of
        None \<Rightarrow> (False, s)
      | Some alert \<Rightarrow>
          (True,
           s\<lparr>alertStore :=
               AList.update alertId
                 (alert\<lparr>acknowledged := True, acknowledgedBy := Some ackBy, acknowledgedAt := Some now\<rparr>)
                 (alertStore s)\<rparr>))"

definition getUnacknowledgedAlertCount :: "AlertState \<Rightarrow> string \<Rightarrow> nat" where
  "getUnacknowledgedAlertCount s uid =
     length (getUserAlerts s uid \<lparr>uq_acknowledged = Some False, uq_limit = None\<rparr>)"

definition expired :: "int \<Rightarrow> GovernanceAlert \<Rightarrow> bool" where
  "expired cutoffDate alert = (a_timestamp alert < cutoffDate \<and> acknowledged alert)"

text \<open>
  The loop of \<open>cleanupOldAlerts\<close> over the entries of \<^verbatim>\<open>alertStore\<close>; the only entry
  it deletes is the one it is visiting.
\<close>

fun cleanupLoop ::
  "int \<Rightarrow> (string \<times> GovernanceAlert) list \<Rightarrow> (string \<times> GovernanceAlert) list \<Rightarrow> nat \<Rightarrow>
   (string \<times> GovernanceAlert) list \<times> nat" where
  "cleanupLoop cutoffDate [] store deletedCount = (store, deletedCount)"
| "cleanupLoop cutoffDate ((alertId, alert) # rest) store deletedCount =
     (if expired cutoffDate alert
      then cleanupLoop cutoffDate rest (AList.delete alertId store) (deletedCount + 1)
      else cleanupLoop cutoffDate rest store deletedCount)"

definition cleanupOldAlerts :: "calendar \<Rightarrow> int \<Rightarrow> int \<Rightarrow> AlertState \<Rightarrow> nat \<times> AlertState" where
  "cleanupOldAlerts cal now olderThanDays s =
     (let cutoffDate = addDays cal now (- olderThanDays);
          (store, deletedCount) = cleanupLoop cutoffDate (alertStore s) (alertStore s) 0
      in (deletedCount, s\<lparr>alertStore := store\<rparr>))"

section \<open>Validation engine\<close>

text \<open>
  A JavaScript string is the list of its code units, so \<^verbatim>\<open>length\<close>, \<^verbatim>\<open>===\<close> and
  \<^verbatim>\<open>includes\<close> are list operations. What the engine asks of the JavaScript run time
  beyond that is a parameter: the two regular-expression literals of the validators, the
  two \<^verbatim>\<open>replace\<close> calls that strip characters, \<^verbatim>\<open>new RegExp(pattern).test(value)\<close>
  (\<open>None\<close> when the pattern does not compile and the constructor throws),
  \<^verbatim>\<open>parseFloat\<close> (\<open>None\<close> for NaN), \<^verbatim>\<open>trim\<close>, \<^verbatim>\<open>toUpperCase\<close>, the
  conversion of a number to a string in a template literal, and \<open>inheritedMember\<close>: for a
  property name that every object inherits from \<^verbatim>\<open>Object.prototype\<close>, the string that
  member converts to (the source text of a native function, or \<^verbatim>\<open>[object Object]\<close>; never
  the text of a number), and \<open>None\<close> for every other name.
\<close>

record builtins =
  emailRegexTest :: "string \<Rightarrow> bool"
  phoneRegexTest :: "string \<Rightarrow> bool"
  stripPhoneFormatting :: "string \<Rightarrow> string"
  stripNonNumeric :: "string \<Rightarrow> string"
  regExpTest :: "string \<Rightarrow> string \<Rightarrow> bool option"
  parseFloat :: "string \<Rightarrow> real option"
  trim :: "string \<Rightarrow> string"
  toUpperCase :: "string \<Rightarrow> string"
  numberToString :: "real \<Rightarrow> string"
  inheritedMember :: "string \<Rightarrow> string option"

text \<open>The members of \<^verbatim>\<open>Object.prototype\<close> and their string conversions in Node.js.\<close>

definition nodeInheritedMember :: "string \<Rightarrow> string option" where
  "nodeInheritedMember name =
     (if name = ''__proto__'' then Some ''[object Object]''
      else if name \<in> set [''constructor'', ''hasOwnProperty'', ''isPrototypeOf'',
                            ''propertyIsEnumerable'', ''toLocaleString'', ''toString'', ''valueOf'',
                            ''__defineGetter__'', ''__defineSetter__'', ''__lookupGetter__'',
                            ''__lookupSetter__'']
      then Some (''function '' @ (if name = ''constructor'' then ''Object'' else name)
                 @ ''() { [native code] }'')
      else None)"

text \<open>
  An instance for evaluating requests whose transition has no rule in the catalogue: the
  engine then calls none of the string and number functions, which are placeholders here.
\<close>

definition idleBuiltins :: builtins where
  "idleBuiltins =
     \<lparr>emailRegexTest = (\<lambda>s. False), phoneRegexTest = (\<lambda>s. False),
      stripPhoneFormatting = (\<lambda>s. s), stripNonNumeric = (\<lambda>s. s),
      regExpTest = (\<lambda>p s. None), parseFloat = (\<lambda>s. None),
      trim = (\<lambda>s. s), toUpperCase = (\<lambda>s. s), numberToString = (\<lambda>x. []),
      inheritedMember = nodeInheritedMember\<rparr>"

subsection \<open>Validation types\<close>

record ValidationError =
  e_code :: string
  e_message :: string
  e_field :: "string option"
  e_currentValue :: "string option"
  e_requiredValue :: "string option"

record ValidationWarning =
  w_code :: string
  w_message :: string
  w_field :: "string option"
  w_recommendation :: "string option"

record ValidationResult =
  isValid :: bool
  errors :: "ValidationError list"
  warnings :: "ValidationWarning list"

datatype FieldRuleType = Required | NonEmpty | Regex | MinLength | Email | Phone

record RequiredFieldRule =
  f_field :: string
  f_label :: string
  f_type :: FieldRuleType
  f_pattern :: "string option"
  f_minLength :: "real option"
  f_errorMessage :: "string option"

datatype DependencyType = Association | Property | Stage

record StageDependency =
  d_type :: DependencyType
  d_target :: string
  d_condition :: string
  d_errorMessage :: string

datatype Operator = Equals | NotEquals | Contains | GreaterThan | LessThan | Exists

datatype ConditionValue = StringValue string | NumberValue real

record StageCondition =
  k_field :: string
  k_operator :: Operator
  k_value :: "ConditionValue option"
  k_errorMessage :: string

record StageGateRule =
  r_id :: string
  r_name :: string
  r_description :: string
  r_fromStage :: string
  r_toStage :: string
  requiredFields :: "RequiredFieldRule list"
  dependencies :: "StageDependency list option"
  conditions :: "StageCondition list option"
  active :: bool

text \<open>
  \<open>properties\<close> is the lookup \<^verbatim>\<open>request.properties[field]\<close>, of type
  \<^verbatim>\<open>string | undefined\<close>.
\<close>

record ValidationRequest =
  objectType :: ObjectType
  objectId :: string
  currentStage :: string
  targetStage :: string
  properties :: "string \<Rightarrow> string option"
  requestUserId :: "string option"

subsection \<open>Stage order tables\<close>

text \<open>
  The two tables are objects with string keys; \<^verbatim>\<open>Object.entries\<close> lists them in the order
  of declaration.
\<close>

definition LIFECYCLE_STAGE_ORDER :: "(string \<times> int) list" where
  "LIFECYCLE_STAGE_ORDER =
     [(''subscriber'', 0), (''lead'', 1), (''marketingqualifiedlead'', 2),
      (''salesqualifiedlead'', 3), (''opportunity'', 4), (''customer'', 5),
      (''evangelist'', 6), (''other'', 7)]"

definition DEAL_STAGE_ORDER :: "(string \<times> int) list" where
  "DEAL_STAGE_ORDER =
     [(''appointmentscheduled'', 0), (''qualifiedtobuy'', 1), (''presentationscheduled'', 2),
      (''decisionmakerboughtin'', 3), (''contractsent'', 4), (''closedwon'', 5),
      (''closedlost'', 6)]"

definition stageOrderFor :: "ObjectType \<Rightarrow> (string \<times> int) list" where
  "stageOrderFor t = (if t = Contact then LIFECYCLE_STAGE_ORDER else DEAL_STAGE_ORDER)"

text \<open>
  The lookup \<^verbatim>\<open>stageOrder[stage]\<close> gives the rank of a stage of the table, a member
  inherited from \<^verbatim>\<open>Object.prototype\<close> for the names that have one, and \<^verbatim>\<open>undefined\<close>
  otherwise.
\<close>

datatype StageLookup = Ranked int | Inherited string | Undefined

definition lookupStage :: "builtins \<Rightarrow> (string \<times> int) list \<Rightarrow> string \<Rightarrow> StageLookup" where
  "lookupStage bi stageOrder stage =
     (case map_of stageOrder stage of
        Some r \<Rightarrow> Ranked r
      | None \<Rightarrow> (case inheritedMember bi stage of Some text \<Rightarrow> Inherited text | None \<Rightarrow> Undefined))"

text \<open>
  The operands of \<^verbatim>\<open><\<close> and \<^verbatim>\<open>>\<close> after conversion to a primitive: a number, or the
  string an inherited member converts to, or NaN for \<^verbatim>\<open>undefined\<close>. Two strings compare
  by their code units; a number and such a string do not compare (the string converts to
  NaN), and nothing compares with NaN. \<open>plusOne\<close> is
  \<^verbatim>\<open>currentOrder + 1\<close>, which appends to a string.
\<close>

datatype Operand = NumberOp int | StringOp string | NotANumber

fun jsLess :: "Operand \<Rightarrow> Operand \<Rightarrow> bool" where
  "jsLess (NumberOp a) (NumberOp b) = (a < b)"
| "jsLess (StringOp a) (StringOp b) = (a < b)"
| "jsLess x y = False"

fun operand :: "StageLookup \<Rightarrow> Operand" where
  "operand (Ranked r) = NumberOp r"
| "operand (Inherited text) = StringOp text"
| "operand Undefined = NotANumber"

fun plusOne :: "StageLookup \<Rightarrow> Operand" where
  "plusOne (Ranked r) = NumberOp (r + 1)"
| "plusOne (Inherited text) = StringOp (text @ ''1'')"
| "plusOne Undefined = NotANumber"

fun joinWith :: "string \<Rightarrow> string list \<Rightarrow> string" where
  "joinWith sep [] = []"
| "joinWith sep [x] = x"
| "joinWith sep (x # y # ys) = x @ sep @ joinWith sep (y # ys)"

subsection \<open>Rule catalogue\<close>

definition fieldRule :: "string \<Rightarrow> string \<Rightarrow> FieldRuleType \<Rightarrow> string \<Rightarrow> RequiredFieldRule" where
  "fieldRule field label type msg =
     \<lparr>f_field = field, f_label = label, f_type = type, f_pattern = None, f_minLength = None,
      f_errorMessage = Some msg\<rparr>"

definition lifecycleStageRules :: "StageGateRule list" where
  "lifecycleStageRules =
     [\<lparr>r_id = ''lifecycle-lead-to-mql'', r_name = ''Lead to MQL Transition'',
       r_description = ''Requirements for promoting a lead to Marketing Qualified Lead'',
       r_fromStage = ''lead'', r_toStage = ''marketingqualifiedlead'',
       requiredFields =
         [fieldRule ''email'' ''Email'' Email ''Valid email is required'',
          fieldRule ''firstname'' ''First Name'' NonEmpty ''First name is required'',
          fieldRule ''lastname'' ''Last Name'' NonEmpty ''Last name is required'',
          fieldRule ''company'' ''Company'' NonEmpty ''Company name is required''],
       dependencies = None, conditions = None, active = True\<rparr>,
      \<lparr>r_id = ''lifecycle-mql-to-sql'', r_name = ''MQL to SQL Transition'',
       r_description = ''Requirements for promoting an MQL to Sales Qualified Lead'',
       r_fromStage = ''marketingqualifiedlead'', r_toStage = ''salesqualifiedlead'',
       requiredFields =
         [fieldRule ''phone'' ''Phone'' Phone ''Valid phone number is required'',
          fieldRule ''hubspot_owner_id'' ''Contact Owner'' Required ''Contact owner must be assigned''],
       dependencies = None,
       conditions =
         Some [\<lparr>k_field = ''hs_lead_status'', k_operator = Exists, k_value = None,
                k_errorMessage = ''Lead status must be set before SQL promotion''\<rparr>],
       active = True\<rparr>,
      \<lparr>r_id = ''lifecycle-sql-to-opportunity'', r_name = ''SQL to Opportunity Transition'',
       r_description = ''Requirements for promoting an SQL to Opportunity'',
       r_fromStage = ''salesqualifiedlead'', r_toStage = ''opportunity'',
       requiredFields =
         [fieldRule ''hubspot_owner_id'' ''Contact Owner'' Required ''Contact owner must be assigned''],
       dependencies =
         Some [\<lparr>d_type = Association, d_target = ''deal'', d_condition = ''exists'',
                d_errorMessage = ''Contact must be associated with at least one deal''\<rparr>],
       conditions = None, active = True\<rparr>,
      \<lparr>r_id = ''lifecycle-opportunity-to-customer'', r_name = ''Opportunity to Customer Transition'',
       r_description = ''Requirements for converting an Opportunity to Customer'',
       r_fromStage = ''opportunity'', r_toStage = ''customer'',
       requiredFields = [],
       dependencies =
         Some [\<lparr>d_type = Association, d_target = ''deal'', d_condition = ''closed_won'',
                d_errorMessage = ''Contact must have at least one closed-won deal''\<rparr>],
       conditions = None, active = True\<rparr>]"

definition dealStageRules :: "StageGateRule list" where
  "dealStageRules =
     [\<lparr>r_id = ''deal-appointment-to-qualified'', r_name = ''Appointment to Qualified Transition'',
       r_description = ''Requirements for moving from Appointment Scheduled to Qualified to Buy'',
       r_fromStage = ''appointmentscheduled'', r_toStage = ''qualifiedtobuy'',
       requiredFields =
         [fieldRule ''dealname'' ''Deal Name'' NonEmpty ''Deal name is required'',
          fieldRule ''amount'' ''Deal Amount'' Required ''Deal amount must be set'',
          fieldRule ''hubspot_owner_id'' ''Deal Owner'' Required ''Deal owner must be assigned''],
       dependencies = None, conditions = None, active = True\<rparr>,
      \<lparr>r_id = ''deal-qualified-to-presentation'', r_name = ''Qualified to Presentation Transition'',
       r_description = ''Requirements for moving from Qualified to Buy to Presentation Scheduled'',
       r_fromStage = ''qualifiedtobuy'', r_toStage = ''presentationscheduled'',
       requiredFields =
         [fieldRule ''closedate'' ''Close Date'' Required ''Expected close date must be set''],
       dependencies =
         Some [\<lparr>d_type = Association, d_target = ''contact'', d_condition = ''exists'',
                d_errorMessage = ''Deal must be associated with at least one contact''\<rparr>],
       conditions = None, active = True\<rparr>,
      \<lparr>r_id = ''deal-presentation-to-decision'', r_name = ''Presentation to Decision Maker Transition'',
       r_description = ''Requirements for moving from Presentation Scheduled to Decision Maker Bought In'',
       r_fromStage = ''presentationscheduled'', r_toStage = ''decisionmakerboughtin'',
       requiredFields = [],
       dependencies = None,
       conditions =
         Some [\<lparr>k_field = ''amount'', k_operator = GreaterThan, k_value = Some (NumberValue 0),
                k_errorMessage = ''Deal amount must be greater than zero''\<rparr>],
       active = True\<rparr>,
      \<lparr>r_id = ''deal-decision-to-contract'', r_name = ''Decision Maker to Contract Sent Transition'',
       r_description = ''Requirements for moving from Decision Maker Bought In to Contract Sent'',
       r_fromStage = ''decisionmakerboughtin'', r_toStage = ''contractsent'',
       requiredFields = [],
       dependencies = None, conditions = None, active = True\<rparr>,
      \<lparr>r_id = ''deal-contract-to-won'', r_name = ''Contract Sent to Closed Won Transition'',
       r_description = ''Requirements for closing a deal as won'',
       r_fromStage = ''contractsent'', r_toStage = ''closedwon'',
       requiredFields =
         [fieldRule ''amount'' ''Deal Amount'' Required ''Final deal amount must be set'',
          fieldRule ''closedate'' ''Close Date'' Required ''Close date must be set''],
       dependencies = None, conditions = None, active = True\<rparr>]"

definition getRulesForObjectType :: "ObjectType \<Rightarrow> StageGateRule list" where
  "getRulesForObjectType t =
     filter active (if t = Contact then lifecycleStageRules else dealStageRules)"

definition getRuleForTransition :: "ObjectType \<Rightarrow> string \<Rightarrow> string \<Rightarrow> StageGateRule option" where
  "getRuleForTransition t fromS toS =
     find (\<lambda>rule. r_fromStage rule = fromS \<and> r_toStage rule = toS) (getRulesForObjectType t)"

subsection \<open>Validators\<close>

definition isValidEmail :: "builtins \<Rightarrow> string \<Rightarrow> bool" where
  "isValidEmail bi email = emailRegexTest bi email"

definition isValidPhone :: "builtins \<Rightarrow> string \<Rightarrow> bool" where
  "isValidPhone bi phone = (let cleaned = stripPhoneFormatting bi phone in phoneRegexTest bi cleaned)"

definition isNonEmpty :: "builtins \<Rightarrow> string option \<Rightarrow> bool" where
  "isNonEmpty bi v = (case v of None \<Rightarrow> False | Some x \<Rightarrow> length (trim bi x) > 0)"

definition exists_value :: "string option \<Rightarrow> bool" where
  "exists_value v = (v \<noteq> None)"

definition matchesPattern :: "builtins \<Rightarrow> string \<Rightarrow> string \<Rightarrow> bool" where
  "matchesPattern bi v pattern = (case regExpTest bi pattern v of None \<Rightarrow> False | Some b \<Rightarrow> b)"

definition hasMinLength :: "string \<Rightarrow> real \<Rightarrow> bool" where
  "hasMinLength v minLength = (real (length v) \<ge> minLength)"

definition parseNumeric :: "builtins \<Rightarrow> string option \<Rightarrow> real" where
  "parseNumeric bi v =
     (case v of
        None \<Rightarrow> 0
      | Some x \<Rightarrow> (case parseFloat bi (stripNonNumeric bi x) of None \<Rightarrow> 0 | Some parsed \<Rightarrow> parsed))"

text \<open>\<^verbatim>\<open>value.includes(needle)\<close>: the needle occurs as a contiguous part of the value.\<close>

fun includes_str :: "string \<Rightarrow> string \<Rightarrow> bool" where
  "includes_str [] needle = (needle = [])"
| "includes_str (c # cs) needle = (take (length needle) (c # cs) = needle \<or> includes_str cs needle)"

text \<open>\<^verbatim>\<open>rule.errorMessage || fallback\<close>: the fallback replaces a missing or empty message.\<close>

definition orElse :: "string option \<Rightarrow> string \<Rightarrow> string" where
  "orElse m fallback = (if truthy m then the m else fallback)"

subsection \<open>Engine\<close>

definition fieldRuleHolds :: "builtins \<Rightarrow> RequiredFieldRule \<Rightarrow> string option \<Rightarrow> bool" where
  "fieldRuleHolds bi rule v =
     (case f_type rule of
        Required \<Rightarrow> exists_value v
      | NonEmpty \<Rightarrow> isNonEmpty bi v
      | Email \<Rightarrow> (case v of None \<Rightarrow> False | Some x \<Rightarrow> isValidEmail bi x)
      | Phone \<Rightarrow> (case v of None \<Rightarrow> False | Some x \<Rightarrow> isValidPhone bi x)
      | Regex \<Rightarrow>
          (case v of None \<Rightarrow> False
           | Some x \<Rightarrow> (case f_pattern rule of None \<Rightarrow> False | Some p \<Rightarrow> matchesPattern bi x p))
      | MinLength \<Rightarrow>
          (case v of None \<Rightarrow> False
           | Some x \<Rightarrow> (case f_minLength rule of None \<Rightarrow> False | Some n \<Rightarrow> hasMinLength x n)))"

definition fieldRuleMessage :: "builtins \<Rightarrow> RequiredFieldRule \<Rightarrow> string" where
  "fieldRuleMessage bi rule =
     orElse (f_errorMessage rule)
       (case f_type rule of
          Required \<Rightarrow> f_label rule @ '' is required''
        | NonEmpty \<Rightarrow> f_label rule @ '' cannot be empty''
        | Email \<Rightarrow> f_label rule @ '' must be a valid email''
        | Phone \<Rightarrow> f_label rule @ '' must be a valid phone number''
        | Regex \<Rightarrow> f_label rule @ '' format is invalid''
        | MinLength \<Rightarrow>
            f_label rule @ '' must be at least ''
              @ (case f_minLength rule of None \<Rightarrow> ''undefined'' | Some n \<Rightarrow> numberToString bi n)
              @ '' characters'')"

fun validateRequiredFields ::
  "builtins \<Rightarrow> RequiredFieldRule list \<Rightarrow> (string \<Rightarrow> string option) \<Rightarrow> ValidationError list" where
  "validateRequiredFields bi [] props = []"
| "validateRequiredFields bi (rule # rules) props =
     (let v = props (f_field rule)
      in if \<not> fieldRuleHolds bi rule v
         then \<lparr>e_code = ''INVALID_'' @ toUpperCase bi (f_field rule),
               e_message = fieldRuleMessage bi rule,
               e_field = Some (f_field rule), e_currentValue = v, e_requiredValue = None\<rparr>
              # validateRequiredFields bi rules props
         else validateRequiredFields bi rules props)"

definition conditionHolds :: "builtins \<Rightarrow> StageCondition \<Rightarrow> string option \<Rightarrow> bool" where
  "conditionHolds bi condition v =
     (case k_operator condition of
        Equals \<Rightarrow>
          (case (v, k_value condition) of
             (None, None) \<Rightarrow> True
           | (Some x, Some (StringValue y)) \<Rightarrow> x = y
           | _ \<Rightarrow> False)
      | NotEquals \<Rightarrow>
          (case (v, k_value condition) of
             (None, None) \<Rightarrow> False
           | (Some x, Some (StringValue y)) \<Rightarrow> x \<noteq> y
           | _ \<Rightarrow> True)
      | Contains \<Rightarrow>
          (case (v, k_value condition) of
             (Some x, Some (StringValue y)) \<Rightarrow> includes_str x y
           | _ \<Rightarrow> False)
      | GreaterThan \<Rightarrow>
          (case k_value condition of
             Some (NumberValue n) \<Rightarrow> parseNumeric bi v > n
           | _ \<Rightarrow> False)
      | LessThan \<Rightarrow>
          (case k_value condition of
             Some (NumberValue n) \<Rightarrow> parseNumeric bi v < n
           | _ \<Rightarrow> False)
      | Exists \<Rightarrow> exists_value v \<and> isNonEmpty bi v)"

fun validateConditions ::
  "builtins \<Rightarrow> StageCondition list \<Rightarrow> (string \<Rightarrow> string option) \<Rightarrow> ValidationError list" where
  "validateConditions bi [] props = []"
| "validateConditions bi (condition # rest) props =
     (let v = props (k_field condition)
      in if \<not> conditionHolds bi condition v
         then \<lparr>e_code = ''CONDITION_FAILED_'' @ toUpperCase bi (k_field condition),
               e_message = k_errorMessage condition,
               e_field = Some (k_field condition), e_currentValue = v, e_requiredValue = None\<rparr>
              # validateConditions bi rest props
         else validateConditions bi rest props)"

definition checkBackwardProgression :: "builtins \<Rightarrow> ValidationRequest \<Rightarrow> ValidationWarning option" where
  "checkBackwardProgression bi request =
     (let stageOrder = stageOrderFor (objectType request);
          currentOrder = lookupStage bi stageOrder (currentStage request);
          targetOrder = lookupStage bi stageOrder (targetStage request)
      in if currentOrder \<noteq> Undefined \<and> targetOrder \<noteq> Undefined
            \<and> jsLess (operand targetOrder) (operand currentOrder)
         then Some \<lparr>w_code = ''BACKWARD_PROGRESSION'',
                    w_message = ''Moving from '' @ currentStage request @ '' to ''
                                @ targetStage request @ '' is a backward progression'',
                    w_field = None,
                    w_recommendation =
                      Some ''Backward progressions may require manager approval. Ensure this is intentional.''\<rparr>
         else None)"

definition skippedBetween :: "(string \<times> int) list \<Rightarrow> StageLookup \<Rightarrow> StageLookup \<Rightarrow> string list" where
  "skippedBetween stageOrder currentOrder targetOrder =
     map fst (filter (\<lambda>(stage, order). jsLess (operand currentOrder) (NumberOp order)
                                        \<and> jsLess (NumberOp order) (operand targetOrder))
                stageOrder)"

definition checkSkippedStages :: "builtins \<Rightarrow> ValidationRequest \<Rightarrow> ValidationWarning option" where
  "checkSkippedStages bi request =
     (let stageOrder = stageOrderFor (objectType request);
          currentOrder = lookupStage bi stageOrder (currentStage request);
          targetOrder = lookupStage bi stageOrder (targetStage request)
      in if currentOrder \<noteq> Undefined \<and> targetOrder \<noteq> Undefined
            \<and> jsLess (plusOne currentOrder) (operand targetOrder)
         then (let skipped = skippedBetween stageOrder currentOrder targetOrder
               in if length skipped > 0
                  then Some \<lparr>w_code = ''SKIPPED_STAGES'',
                             w_message = ''Skipping stages: '' @ joinWith '', '' skipped,
                             w_field = None,
                             w_recommendation =
                               Some ''Consider whether all stage requirements have been met.''\<rparr>
                  else None)
         else None)"

definition pushIfAny :: "'a option \<Rightarrow> 'a list \<Rightarrow> 'a list" where
  "pushIfAny r xs = (case r of None \<Rightarrow> xs | Some x \<Rightarrow> xs @ [x])"

definition validateStageTransition :: "builtins \<Rightarrow> ValidationRequest \<Rightarrow> ValidationResult" where
  "validateStageTransition bi request =
     (let warnings1 = pushIfAny (checkBackwardProgression bi request) [];
          warnings2 = pushIfAny (checkSkippedStages bi request) warnings1;
          rule = getRuleForTransition (objectType request) (currentStage request) (targetStage request);
          errs = (case rule of
                    None \<Rightarrow> []
                  | Some r \<Rightarrow>
                      validateRequiredFields bi (requiredFields r) (properties request)
                      @ (case conditions r of
                           None \<Rightarrow> []
                         | Some cs \<Rightarrow> validateConditions bi cs (properties request)))
      in \<lparr>isValid = (length errs = 0), errors = errs, warnings = warnings2\<rparr>)"

text \<open>The rank of a stage in a table, and the warnings of a result that carry a given code.\<close>

definition rank :: "(string \<times> int) list \<Rightarrow> string \<Rightarrow> int option" where
  "rank stageOrder stage = map_of stageOrder stage"


definition warningsWithCode :: "string \<Rightarrow> ValidationResult \<Rightarrow> ValidationWarning list" where
  "warningsWithCode code result = filter (\<lambda>w. w_code w = code) (warnings result)"

section \<open>Concrete inputs\<close>

text \<open>The calls of the unit test of the compliance score: valid ones, and invalid ones with a rule.\<close>

definition validCall :: "string \<Rightarrow> int \<Rightarrow> TransitionCall" where
  "validCall uid t =
     \<lparr>c_now = t, c_newId = ''unused'', c_userId = uid, c_userName = ''Compliance Score User'',
      c_objectType = Contact, c_objectId = ''contact-1'', c_fromStage = ''lead'', c_toStage = ''mql'',
      c_isValid = True, c_missingFields = None, c_ruleId = None, c_ruleName = None\<rparr>"

definition invalidCall :: "string \<Rightarrow> int \<Rightarrow> string \<Rightarrow> TransitionCall" where
  "invalidCall uid t vid =
     \<lparr>c_now = t, c_newId = vid, c_userId = uid, c_userName = ''Compliance Score User'',
      c_objectType = Contact, c_objectId = ''contact-fail'', c_fromStage = ''lead'', c_toStage = ''mql'',
      c_isValid = False, c_missingFields = Some [''email''], c_ruleId = Some ''rule-1'',
      c_ruleName = Some ''Test Rule''\<rparr>"

definition scoreScenario :: "TransitionCall list" where
  "scoreScenario =
     [validCall ''u1'' 1, validCall ''u1'' 2, validCall ''u1'' 3, validCall ''u1'' 4,
      validCall ''u1'' 5, validCall ''u1'' 6, validCall ''u1'' 7, validCall ''u1'' 8,
      invalidCall ''u1'' 9 ''v1'', invalidCall ''u1'' 10 ''v2'']"

definition mixedScenario :: "TransitionCall list" where
  "mixedScenario = [validCall ''u1'' 1000, invalidCall ''u1'' 2000 ''v1'', validCall ''u2'' 3000]"

text \<open>A state in which one user has a scorecard with one valid transition recorded.\<close>

definition aliceCard :: RepScorecard where
  "aliceCard =
     \<lparr>userId = ''u1'', userName = ''Alice'',
      period = \<lparr>startDate = 0, endDate = 604799999, periodType = Weekly\<rparr>,
      metrics = createEmptyMetrics\<lparr>totalStageTransitions := 1, validTransitions := 1,
                                   contactsStagedCorrectly := 1\<rparr>,
      complianceScore = 100, trend = Stable, violations = [], lastUpdated = 1000\<rparr>"

definition aliceState :: ScorecardState where
  "aliceState = \<lparr>scorecardStore = [(''u1'', aliceCard)], violationStore = [], heap = []\<rparr>"

text \<open>
  The violation objects of a user's log, and the two counts the trend compares: unresolved
  violations of the last seven days, and unresolved violations older than that.
\<close>

definition logViolations :: "ScorecardState \<Rightarrow> string \<Rightarrow> ComplianceViolation list" where
  "logViolations s uid = List.map_filter (deref (heap s)) (userLog s uid)"

definition recentUnresolved :: "calendar \<Rightarrow> int \<Rightarrow> ScorecardState \<Rightarrow> string \<Rightarrow> nat" where
  "recentUnresolved cal now s uid =
     length (filter (\<lambda>v. \<not> resolved v \<and> addDays cal now (- 7) \<le> v_timestamp v) (logViolations s uid))"

definition olderUnresolved :: "calendar \<Rightarrow> int \<Rightarrow> ScorecardState \<Rightarrow> string \<Rightarrow> nat" where
  "olderUnresolved cal now s uid =
     length (filter (\<lambda>v. \<not> resolved v \<and> v_timestamp v < addDays cal now (- 7)) (logViolations s uid))"

text \<open>A log of five unresolved violations, three of them older than a week at time 864000002.\<close>

definition mkViolation :: "string \<Rightarrow> int \<Rightarrow> bool \<Rightarrow> ComplianceViolation" where
  "mkViolation vid t res =
     \<lparr>v_id = vid, v_timestamp = t, v_objectType = Deal, v_objectId = ''deal-1'',
      violationType = MissingRequiredField, fromStage = ''appointment'', toStage = ''qualified'',
      missingFields = Some [''amount''], ruleId = ''rule-1'', ruleName = ''Amount Required'',
      severity = Medium, resolved = res, resolvedAt = (if res then Some t else None)\<rparr>"

definition trendState :: ScorecardState where
  "trendState =
     \<lparr>scorecardStore = [], violationStore = [(''u1'', [0, 1, 2, 3, 4])],
      heap = [mkViolation ''v0'' 0 False, mkViolation ''v1'' 1000 False, mkViolation ''v2'' 2000 False,
              mkViolation ''v3'' 864000000 False, mkViolation ''v4'' 864000001 False]\<rparr>"

text \<open>The state after two invalid transitions of one user, recorded at times 1000 and 2000.\<close>

definition twoViolations :: ScorecardState where
  "twoViolations = recordAll utcCalendar [invalidCall ''u1'' 1000 ''v1'', invalidCall ''u1'' 2000 ''v2''] emptyState"

text \<open>
  Three alerts of one user: an old acknowledged one, an old unacknowledged one and a recent
  acknowledged one.
\<close>

definition mkAlert :: "string \<Rightarrow> int \<Rightarrow> bool \<Rightarrow> GovernanceAlert" where
  "mkAlert aid t ack =
     \<lparr>a_id = aid, a_type = RequiredFieldMissing, a_severity = AlertWarning,
      a_title = ''Stage Gate Violation: Amount Required'',
      a_message = ''Missing required fields: amount'',
      a_objectType = Deal, a_objectId = ''deal-1'', a_userId = ''u1'', a_timestamp = t,
      acknowledged = ack, acknowledgedBy = (if ack then Some ''manager'' else None),
      acknowledgedAt = (if ack then Some (t + 1) else None), metadata = None\<rparr>"

definition alertsExample :: AlertState where
  "alertsExample =
     \<lparr>alertStore = [(''a1'', mkAlert ''a1'' 0 True), (''a2'', mkAlert ''a2'' 1 False),
                    (''a3'', mkAlert ''a3'' 1728000000 True)],
      alertsByPortal = [(42, [''a1'', ''a2'', ''a3''])],
      alertsByUser = [(''u1'', [''a1'', ''a2'', ''a3''])]\<rparr>"

text \<open>
  Requests without a rule in the catalogue: a backward move, a move that skips three
  lifecycle stages, a deal moved to a custom stage, and a contact whose two stage names are
  names of inherited members.
\<close>

definition backwardRequest :: ValidationRequest where
  "backwardRequest =
     \<lparr>objectType = Contact, objectId = ''123'', currentStage = ''opportunity'', targetStage = ''lead'',
      properties = (\<lambda>field. None), requestUserId = None\<rparr>"

definition skippingRequest :: ValidationRequest where
  "skippingRequest =
     \<lparr>objectType = Contact, objectId = ''123'', currentStage = ''subscriber'',
      targetStage = ''opportunity'', properties = (\<lambda>field. None), requestUserId = None\<rparr>"

definition customStageRequest :: ValidationRequest where
  "customStageRequest =
     \<lparr>objectType = Deal, objectId = ''77'', currentStage = ''appointmentscheduled'',
      targetStage = ''negotiation'', properties = (\<lambda>field. None), requestUserId = None\<rparr>"

definition inheritedRequest :: ValidationRequest where
  "inheritedRequest =
     \<lparr>objectType = Contact, objectId = ''123'', currentStage = ''constructor'',
      targetStage = ''toString'', properties = (\<lambda>field. None), requestUserId = None\<rparr>"

text \<open>The stages of a table whose rank lies strictly between two ranks, in the table's order.\<close>

definition stagesBetween :: "(string \<times> int) list \<Rightarrow> int \<Rightarrow> int \<Rightarrow> string list" where
  "stagesBetween stageOrder c t = map fst (filter (\<lambda>(stage, r). c < r \<and> r < t) stageOrder)"

text \<open>The warning that names the stages between two ranks.\<close>

definition skippedWarning :: "(string \<times> int) list \<Rightarrow> int \<Rightarrow> int \<Rightarrow> ValidationWarning" where
  "skippedWarning stageOrder c t =
     \<lparr>w_code = ''SKIPPED_STAGES'',
      w_message = ''Skipping stages: '' @ joinWith '', '' (stagesBetween stageOrder c t),
      w_field = None,
      w_recommendation = Some ''Consider whether all stage requirements have been met.''\<rparr>"

section \<open>Properties of the scorecard service\<close>

subsection \<open>Effect of one recorded transition\<close>

lemma record_lookup:
  "\<exists>sc. getScorecard (recordStageTransition cal now nid uid un ot oi fs ts iv mf ri rn s) uid = Some sc
    \<and> totalStageTransitions (metrics sc) = totalStageTransitions (metricsOf s uid) + 1
    \<and> validTransitions (metrics sc) = validTransitions (metricsOf s uid) + (if iv then 1 else 0)
    \<and> invalidAttempts (metrics sc) = invalidAttempts (metricsOf s uid) + (if iv then 0 else 1)
    \<and> requiredFieldsCompliance (metrics sc) = requiredFieldsCompliance (metricsOf s uid)
    \<and> complianceScore sc = calculateComplianceScore (metrics sc)
    \<and> userName sc = (case getScorecard s uid of None \<Rightarrow> un | Some c \<Rightarrow> userName c)"
  by (auto simp: recordStageTransition_def getOrCreateScorecard_def metricsOf_def getScorecard_def
        update_conv Let_def createEmptyMetrics_def split: option.splits)

lemma record_other:
  "uid' \<noteq> uid \<Longrightarrow>
   getScorecard (recordStageTransition cal now nid uid un ot oi fs ts iv mf ri rn s) uid' = getScorecard s uid'"
  by (auto simp: recordStageTransition_def getOrCreateScorecard_def getScorecard_def update_conv Let_def
        split: option.splits)

lemma applyCall_same:
  "\<exists>sc. getScorecard (applyCall cal c s) (c_userId c) = Some sc
    \<and> totalStageTransitions (metrics sc) = totalStageTransitions (metricsOf s (c_userId c)) + 1
    \<and> validTransitions (metrics sc) = validTransitions (metricsOf s (c_userId c)) + (if c_isValid c then 1 else 0)
    \<and> invalidAttempts (metrics sc) = invalidAttempts (metricsOf s (c_userId c)) + (if c_isValid c then 0 else 1)
    \<and> requiredFieldsCompliance (metrics sc) = requiredFieldsCompliance (metricsOf s (c_userId c))
    \<and> complianceScore sc = calculateComplianceScore (metrics sc)"
  using record_lookup[of cal "c_now c" "c_newId c" "c_userId c" "c_userName c" "c_objectType c"
      "c_objectId c" "c_fromStage c" "c_toStage c" "c_isValid c" "c_missingFields c" "c_ruleId c" "c_ruleName c" s]
  unfolding applyCall_def by (elim exE conjE) simp

lemma applyCall_other:
  "uid \<noteq> c_userId c \<Longrightarrow> getScorecard (applyCall cal c s) uid = getScorecard s uid"
  unfolding applyCall_def by (rule record_other) 

lemma recordAll_metrics:
  "totalStageTransitions (metricsOf (recordAll cal cs s) uid) = totalStageTransitions (metricsOf s uid) + callsFor uid cs
   \<and> validTransitions (metricsOf (recordAll cal cs s) uid) = validTransitions (metricsOf s uid) + validCallsFor uid cs
   \<and> invalidAttempts (metricsOf (recordAll cal cs s) uid) = invalidAttempts (metricsOf s uid) + invalidCallsFor uid cs
   \<and> requiredFieldsCompliance (metricsOf (recordAll cal cs s) uid) = requiredFieldsCompliance (metricsOf s uid)
   \<and> (getScorecard (recordAll cal cs s) uid = None \<longleftrightarrow> getScorecard s uid = None \<and> callsFor uid cs = 0)
   \<and> (scoreFresh s uid \<longrightarrow> scoreFresh (recordAll cal cs s) uid)"
proof (induction cs arbitrary: s)
  case Nil
  show ?case by (simp add: callsFor_def validCallsFor_def invalidCallsFor_def)
next
  case (Cons c cs)
  show ?case
  proof (cases "c_userId c = uid")
    case True
    from applyCall_same[of cal c s] True obtain sc where
      sc: "getScorecard (applyCall cal c s) uid = Some sc"
      "totalStageTransitions (metrics sc) = totalStageTransitions (metricsOf s uid) + 1"
      "validTransitions (metrics sc) = validTransitions (metricsOf s uid) + (if c_isValid c then 1 else 0)"
      "invalidAttempts (metrics sc) = invalidAttempts (metricsOf s uid) + (if c_isValid c then 0 else 1)"
      "requiredFieldsCompliance (metrics sc) = requiredFieldsCompliance (metricsOf s uid)"
      "complianceScore sc = calculateComplianceScore (metrics sc)"
      by auto
    have m: "metricsOf (applyCall cal c s) uid = metrics sc"
      using sc(1) by (simp add: metricsOf_def)
    have c: "scoreFresh (applyCall cal c s) uid"
      using sc(1,6) by (simp add: scoreFresh_def)
    show ?thesis
      using Cons.IH[of "applyCall cal c s"] True sc m c
      by (simp add: callsFor_def validCallsFor_def invalidCallsFor_def)
  next
    case False
    then have g: "getScorecard (applyCall cal c s) uid = getScorecard s uid"
      by (simp add: applyCall_other)
    then have m: "metricsOf (applyCall cal c s) uid = metricsOf s uid"
      by (simp add: metricsOf_def)
    have c: "scoreFresh (applyCall cal c s) uid = scoreFresh s uid"
      using g by (simp add: scoreFresh_def)
    show ?thesis
      using Cons.IH[of "applyCall cal c s"] False g m c
      by (simp add: callsFor_def validCallsFor_def invalidCallsFor_def)
  qed
qed

lemma calls_split: "callsFor uid cs = validCallsFor uid cs + invalidCallsFor uid cs"
  by (induction cs) (auto simp: callsFor_def validCallsFor_def invalidCallsFor_def)

lemma metricsOf_fresh:
  "getScorecard s uid = None \<Longrightarrow> metricsOf s uid = createEmptyMetrics"
  by (simp add: metricsOf_def)

subsection \<open>Counters\<close>

text \<open>
  Claim C3. Starting from a state in which the user has no scorecard, after any sequence of
  \<open>recordStageTransition\<close> calls (calls for other users may be interleaved) the user's
  scorecard has \<open>totalStageTransitions\<close> equal to the number \<open>N\<close> of calls made for that
  user, and \<open>validTransitions + invalidAttempts = N\<close>; there is no scorecard exactly when
  \<open>N = 0\<close>. Every single call, in any state, increments \<open>totalStageTransitions\<close> and
  exactly one of \<open>validTransitions\<close> and \<open>invalidAttempts\<close>.
\<close>

theorem recordStageTransition_counts:
  assumes "getScorecard s uid = None"
  shows "(case getScorecard (recordAll cal cs s) uid of
            None \<Rightarrow> callsFor uid cs = 0
          | Some sc \<Rightarrow>
              totalStageTransitions (metrics sc) = callsFor uid cs
              \<and> validTransitions (metrics sc) + invalidAttempts (metrics sc) = callsFor uid cs)
         \<and> totalStageTransitions (metricsOf (applyCall cal c t) (c_userId c))
             = totalStageTransitions (metricsOf t (c_userId c)) + 1
         \<and> validTransitions (metricsOf (applyCall cal c t) (c_userId c))
             = validTransitions (metricsOf t (c_userId c)) + (if c_isValid c then 1 else 0)
         \<and> invalidAttempts (metricsOf (applyCall cal c t) (c_userId c))
             = invalidAttempts (metricsOf t (c_userId c)) + (if c_isValid c then 0 else 1)"
proof -
  have e: "metricsOf s uid = createEmptyMetrics"
    using assms by (rule metricsOf_fresh)
  note r = recordAll_metrics[of cal cs s uid]
  have 1: "(case getScorecard (recordAll cal cs s) uid of
            None \<Rightarrow> callsFor uid cs = 0
          | Some sc \<Rightarrow>
              totalStageTransitions (metrics sc) = callsFor uid cs
              \<and> validTransitions (metrics sc) + invalidAttempts (metrics sc) = callsFor uid cs)"
  proof (cases "getScorecard (recordAll cal cs s) uid")
    case None
    then show ?thesis using r by simp
  next
    case (Some sc)
    then have "metricsOf (recordAll cal cs s) uid = metrics sc"
      by (simp add: metricsOf_def)
    then show ?thesis
      using r Some e calls_split[of uid cs] by (simp add: createEmptyMetrics_def)
  qed
  obtain sc where sc: "getScorecard (applyCall cal c t) (c_userId c) = Some sc"
      "totalStageTransitions (metrics sc) = totalStageTransitions (metricsOf t (c_userId c)) + 1"
      "validTransitions (metrics sc) = validTransitions (metricsOf t (c_userId c)) + (if c_isValid c then 1 else 0)"
      "invalidAttempts (metrics sc) = invalidAttempts (metricsOf t (c_userId c)) + (if c_isValid c then 0 else 1)"
    using applyCall_same[of cal c t] by auto
  have m: "metricsOf (applyCall cal c t) (c_userId c) = metrics sc"
    using sc(1) by (simp add: metricsOf_def)
  show ?thesis using 1 sc m by simp
qed

theorem recordStageTransition_counts_witness:
  "getScorecard emptyState ''u1'' = None
   \<and> (\<exists>sc. getScorecard (recordAll utcCalendar mixedScenario emptyState) ''u1'' = Some sc
      \<and> totalStageTransitions (metrics sc) = 2
      \<and> validTransitions (metrics sc) + invalidAttempts (metrics sc) = 2)"
proof -
  have h: "getScorecard emptyState ''u1'' = None"
    by (simp add: getScorecard_def emptyState_def)
  have c: "callsFor ''u1'' mixedScenario = 2"
    by (simp add: callsFor_def mixedScenario_def validCall_def invalidCall_def)
  show ?thesis
    using recordStageTransition_counts[where s=emptyState and uid="''u1''" and cal=utcCalendar
        and cs="mixedScenario"
        and c="validCall ''u1'' 1000" and t=emptyState, OF h]
    by (auto simp del: recordAll.simps simp: h c split: option.splits)
qed

subsection \<open>Compliance score\<close>

text \<open>
  Claim C2. After every \<open>recordStageTransition\<close> call the user's scorecard exists, has a
  positive \<open>totalStageTransitions\<close>, and its \<open>complianceScore\<close> is
  \<open>validTransitions / totalStageTransitions * 100 * 0.6 + requiredFieldsCompliance * 0.4\<close>;
  the formula gives 100 for metrics whose \<open>totalStageTransitions\<close> is 0; and a user
  without a scorecard for whom 8 valid and 2 invalid transitions are then recorded has
  \<open>requiredFieldsCompliance\<close> 100 and \<open>complianceScore\<close> 88.
\<close>

theorem recordStageTransition_complianceScore:
  "(\<exists>sc. getScorecard (recordStageTransition cal now nid uid un ot oi fs ts iv mf ri rn s) uid = Some sc
        \<and> totalStageTransitions (metrics sc) > 0
        \<and> complianceScore sc =
            real (validTransitions (metrics sc)) / real (totalStageTransitions (metrics sc)) * 100 * 0.6
            + requiredFieldsCompliance (metrics sc) * 0.4)
   \<and> calculateComplianceScore (m\<lparr>totalStageTransitions := 0\<rparr>) = 100
   \<and> (getScorecard s0 u = None \<and> validCallsFor u cs = 8 \<and> invalidCallsFor u cs = 2
        \<longrightarrow> (\<exists>sc. getScorecard (recordAll cal cs s0) u = Some sc
               \<and> requiredFieldsCompliance (metrics sc) = 100 \<and> complianceScore sc = 88))"
proof -
  obtain sc where sc: "getScorecard (recordStageTransition cal now nid uid un ot oi fs ts iv mf ri rn s) uid = Some sc"
    "totalStageTransitions (metrics sc) = totalStageTransitions (metricsOf s uid) + 1"
    "complianceScore sc = calculateComplianceScore (metrics sc)"
    using record_lookup[of cal now nid uid un ot oi fs ts iv mf ri rn s] by auto
  have 1: "\<exists>sc. getScorecard (recordStageTransition cal now nid uid un ot oi fs ts iv mf ri rn s) uid = Some sc
        \<and> totalStageTransitions (metrics sc) > 0
        \<and> complianceScore sc =
            real (validTransitions (metrics sc)) / real (totalStageTransitions (metrics sc)) * 100 * 0.6
            + requiredFieldsCompliance (metrics sc) * 0.4"
  proof -
    have nz: "totalStageTransitions (metrics sc) \<noteq> 0" using sc(2) by simp
    then have "calculateComplianceScore (metrics sc) =
            real (validTransitions (metrics sc)) / real (totalStageTransitions (metrics sc)) * 100 * 0.6
            + requiredFieldsCompliance (metrics sc) * 0.4"
      by (simp add: calculateComplianceScore_def Let_def)
    with sc(1,3) nz show ?thesis by simp
  qed
  have 2: "calculateComplianceScore (m\<lparr>totalStageTransitions := 0\<rparr>) = 100"
    by (simp add: calculateComplianceScore_def)
  have 3: "\<exists>sc. getScorecard (recordAll cal cs s0) u = Some sc
               \<and> requiredFieldsCompliance (metrics sc) = 100 \<and> complianceScore sc = 88"
    if a: "getScorecard s0 u = None" "validCallsFor u cs = 8" "invalidCallsFor u cs = 2"
  proof -
    note r = recordAll_metrics[of cal cs s0 u]
    have n: "callsFor u cs = 10" using calls_split[of u cs] a by simp
    have e: "metricsOf s0 u = createEmptyMetrics" using a(1) by (rule metricsOf_fresh)
    have f: "scoreFresh s0 u" using a(1) by (simp add: scoreFresh_def)
    from r n obtain c where c: "getScorecard (recordAll cal cs s0) u = Some c"
      by (cases "getScorecard (recordAll cal cs s0) u") auto
    then have m: "metricsOf (recordAll cal cs s0) u = metrics c"
      by (simp add: metricsOf_def)
    have t: "totalStageTransitions (metrics c) = 10" "validTransitions (metrics c) = 8"
      "requiredFieldsCompliance (metrics c) = 100"
      using r m e n a by (simp_all add: createEmptyMetrics_def)
    have "complianceScore c = calculateComplianceScore (metrics c)"
      using r f c by (simp add: scoreFresh_def)
    then have "complianceScore c = 88"
      using t by (simp add: calculateComplianceScore_def Let_def)
    with c t show ?thesis by simp
  qed
  show ?thesis using 1 2 3 by blast
qed

theorem recordStageTransition_complianceScore_witness:
  "getScorecard emptyState ''u1'' = None
   \<and> validCallsFor ''u1'' scoreScenario = 8 \<and> invalidCallsFor ''u1'' scoreScenario = 2
   \<and> (\<exists>sc. getScorecard (recordAll utcCalendar scoreScenario emptyState) ''u1'' = Some sc
          \<and> requiredFieldsCompliance (metrics sc) = 100 \<and> complianceScore sc = 88)"
proof -
  have h: "getScorecard emptyState ''u1'' = None"
    by (simp add: getScorecard_def emptyState_def)
  have v: "validCallsFor ''u1'' scoreScenario = 8"
    by (simp add: validCallsFor_def scoreScenario_def validCall_def invalidCall_def)
  have i: "invalidCallsFor ''u1'' scoreScenario = 2"
    by (simp add: invalidCallsFor_def scoreScenario_def validCall_def invalidCall_def)
  show ?thesis
    using recordStageTransition_complianceScore[where ?s0.0=emptyState and u="''u1''"
        and cs=scoreScenario and cal=utcCalendar] h v i
    by blast
qed

lemma getOrCreate_existing:
  "getScorecard s uid = Some sc \<Longrightarrow> getOrCreateScorecard cal now uid un s = (sc, s)"
  by (simp add: getOrCreateScorecard_def getScorecard_def)

lemma update_lookup:
  "\<exists>sc'. getScorecard (updateFieldsCompliance cal now uid un tf cf s) uid = Some sc'
     \<and> requiredFieldsCompliance (metrics sc') =
         (if tf > 0 then cf / tf * 100 else requiredFieldsCompliance (metricsOf s uid))
     \<and> lastUpdated sc' = now
     \<and> complianceScore sc' = (case getScorecard s uid of None \<Rightarrow> 100 | Some c \<Rightarrow> complianceScore c)
     \<and> userName sc' = (case getScorecard s uid of None \<Rightarrow> un | Some c \<Rightarrow> userName c)
     \<and> totalStageTransitions (metrics sc') = totalStageTransitions (metricsOf s uid)
     \<and> validTransitions (metrics sc') = validTransitions (metricsOf s uid)"
  by (auto simp: updateFieldsCompliance_def getOrCreateScorecard_def metricsOf_def getScorecard_def
        update_conv Let_def createEmptyMetrics_def split: option.splits)

subsection \<open>User name\<close>

text \<open>
  Claim C10. When a user already has a scorecard, \<open>recordStageTransition\<close>,
  \<open>updateFieldsCompliance\<close> and \<open>getOrCreateScorecard\<close> called with any user name leave
  the stored \<open>userName\<close> as it was; \<open>getOrCreateScorecard\<close> returns the stored scorecard
  and changes nothing.
\<close>

theorem userName_fixed_at_creation:
  assumes "getScorecard s uid = Some sc"
  shows "(\<exists>sc'. getScorecard (recordStageTransition cal now nid uid un ot oi fs ts iv mf ri rn s) uid = Some sc'
            \<and> userName sc' = userName sc)
       \<and> (\<exists>sc'. getScorecard (updateFieldsCompliance cal now uid un tf cf s) uid = Some sc'
            \<and> userName sc' = userName sc)
       \<and> getOrCreateScorecard cal now uid un s = (sc, s)"
proof -
  have 1: "\<exists>sc'. getScorecard (recordStageTransition cal now nid uid un ot oi fs ts iv mf ri rn s) uid = Some sc'
            \<and> userName sc' = userName sc"
    using record_lookup[of cal now nid uid un ot oi fs ts iv mf ri rn s] assms by auto
  have 2: "\<exists>sc'. getScorecard (updateFieldsCompliance cal now uid un tf cf s) uid = Some sc'
            \<and> userName sc' = userName sc"
    using update_lookup[of cal now uid un tf cf s] assms by auto
  show ?thesis using 1 2 getOrCreate_existing[OF assms] by simp
qed

theorem userName_fixed_at_creation_witness:
  "getScorecard aliceState ''u1'' = Some aliceCard
   \<and> (\<exists>sc'. getScorecard (recordStageTransition utcCalendar 5000 ''v9'' ''u1'' ''Renamed'' Deal ''deal-1''
                ''contractsent'' ''closedwon'' False (Some [''amount'']) (Some ''rule-1'') (Some ''Test Rule'')
                aliceState) ''u1'' = Some sc' \<and> userName sc' = ''Alice'')
   \<and> (\<exists>sc'. getScorecard (updateFieldsCompliance utcCalendar 5000 ''u1'' ''Renamed'' 4 2 aliceState) ''u1'' = Some sc'
            \<and> userName sc' = ''Alice'')
   \<and> getOrCreateScorecard utcCalendar 5000 ''u1'' ''Renamed'' aliceState = (aliceCard, aliceState)"
proof -
  have h: "getScorecard aliceState ''u1'' = Some aliceCard"
    by (simp add: getScorecard_def aliceState_def)
  have n: "userName aliceCard = ''Alice''"
    by (simp add: aliceCard_def)
  show ?thesis
    using userName_fixed_at_creation[OF h, of utcCalendar 5000 "''v9''" "''Renamed''" Deal "''deal-1''"
        "''contractsent''" "''closedwon''" False "Some [''amount'']" "Some ''rule-1''" "Some ''Test Rule''" 4 2] h n
    by simp
qed

subsection \<open>Field compliance\<close>

text \<open>
  Claim C8. \<open>updateFieldsCompliance\<close> with \<open>totalFields > 0\<close> sets
  \<open>requiredFieldsCompliance\<close> to \<open>compliantFields / totalFields * 100\<close> and
  \<open>lastUpdated\<close> to the current time, and leaves \<open>complianceScore\<close> as it was (100, the
  initial score, when the scorecard is created by this call); the new percentage enters
  the score at the next \<open>recordStageTransition\<close> for the user.
\<close>

theorem updateFieldsCompliance_no_recompute:
  assumes "totalFields > 0"
  shows "\<exists>sc'. getScorecard (updateFieldsCompliance cal now uid un totalFields compliantFields s) uid = Some sc'
           \<and> requiredFieldsCompliance (metrics sc') = compliantFields / totalFields * 100
           \<and> lastUpdated sc' = now
           \<and> complianceScore sc' = (case getScorecard s uid of None \<Rightarrow> 100 | Some sc \<Rightarrow> complianceScore sc)
           \<and> (\<exists>sc''. getScorecard (recordStageTransition cal now' nid uid un' ot oi fs ts iv mf ri rn
                          (updateFieldsCompliance cal now uid un totalFields compliantFields s)) uid = Some sc''
                  \<and> complianceScore sc'' =
                      real (validTransitions (metrics sc'')) / real (totalStageTransitions (metrics sc'')) * 100 * 0.6
                      + (compliantFields / totalFields * 100) * 0.4)"
proof -
  let ?s1 = "updateFieldsCompliance cal now uid un totalFields compliantFields s"
  obtain sc' where a: "getScorecard ?s1 uid = Some sc'"
    "requiredFieldsCompliance (metrics sc') = compliantFields / totalFields * 100"
    "lastUpdated sc' = now"
    "complianceScore sc' = (case getScorecard s uid of None \<Rightarrow> 100 | Some c \<Rightarrow> complianceScore c)"
    using update_lookup[of cal now uid un totalFields compliantFields s] assms by auto
  have m: "metricsOf ?s1 uid = metrics sc'"
    using a(1) by (simp add: metricsOf_def)
  obtain sc'' where b: "getScorecard (recordStageTransition cal now' nid uid un' ot oi fs ts iv mf ri rn ?s1) uid = Some sc''"
    "totalStageTransitions (metrics sc'') = totalStageTransitions (metricsOf ?s1 uid) + 1"
    "requiredFieldsCompliance (metrics sc'') = requiredFieldsCompliance (metricsOf ?s1 uid)"
    "complianceScore sc'' = calculateComplianceScore (metrics sc'')"
    using record_lookup[of cal now' nid uid un' ot oi fs ts iv mf ri rn ?s1] by auto
  have nz: "totalStageTransitions (metrics sc'') \<noteq> 0" using b(2) by simp
  then have "calculateComplianceScore (metrics sc'') =
      real (validTransitions (metrics sc'')) / real (totalStageTransitions (metrics sc'')) * 100 * 0.6
      + requiredFieldsCompliance (metrics sc'') * 0.4"
    by (simp add: calculateComplianceScore_def Let_def)
  then have "complianceScore sc'' =
      real (validTransitions (metrics sc'')) / real (totalStageTransitions (metrics sc'')) * 100 * 0.6
      + (compliantFields / totalFields * 100) * 0.4"
    using b(3,4) m a(2) by simp
  with a b(1) show ?thesis by blast
qed

theorem updateFieldsCompliance_no_recompute_witness:
  "(4::real) > 0
   \<and> (\<exists>sc'. getScorecard (updateFieldsCompliance utcCalendar 5000 ''u1'' ''Alice'' 4 2 aliceState) ''u1'' = Some sc'
         \<and> requiredFieldsCompliance (metrics sc') = 50 \<and> lastUpdated sc' = 5000 \<and> complianceScore sc' = 100)"
proof -
  have h: "(4::real) > 0" by simp
  have g: "getScorecard aliceState ''u1'' = Some aliceCard"
    by (simp add: getScorecard_def aliceState_def)
  have c: "complianceScore aliceCard = 100" by (simp add: aliceCard_def)
  show ?thesis
    using updateFieldsCompliance_no_recompute[OF h, where cal=utcCalendar and now=5000 and uid="''u1''"
        and un="''Alice''" and compliantFields=2 and s=aliceState and now'=6000 and nid="''v9''"
        and un'="''Alice''" and ot=Contact and oi="''contact-2''" and fs="''lead''" and ts="''mql''"
        and iv=True and mf=None and ri=None and rn=None] g c
    by auto
qed

subsection \<open>Trend\<close>

lemma count_recent:
  "length (filter (isRecentUnresolved h c) vs)
     = length (filter (\<lambda>v. \<not> resolved v \<and> c \<le> v_timestamp v) (List.map_filter (deref h) vs))"
  by (induction vs) (auto simp: List.map_filter_simps isRecentUnresolved_def split: option.splits)

lemma count_older:
  "length (filter (isOlderUnresolved h c) vs)
     = length (filter (\<lambda>v. \<not> resolved v \<and> v_timestamp v < c) (List.map_filter (deref h) vs))"
  by (induction vs) (auto simp: List.map_filter_simps isOlderUnresolved_def split: option.splits)

lemma calculateTrend_counts:
  "calculateTrend cal now s uid =
     (if length (userLog s uid) < 5 then Stable
      else if recentUnresolved cal now s uid < olderUnresolved cal now s uid then Improving
      else if recentUnresolved cal now s uid > olderUnresolved cal now s uid then Declining
      else Stable)"
  by (simp add: calculateTrend_def Let_def recentUnresolved_def olderUnresolved_def logViolations_def
        count_recent count_older)

lemma calculateTrend_scorecardStore:
  "calculateTrend cal now (s\<lparr>scorecardStore := x\<rparr>) uid = calculateTrend cal now s uid"
  by (simp add: calculateTrend_def userLog_def Let_def)

lemma record_trend:
  "\<exists>sc. getScorecard (recordStageTransition cal now nid uid un ot oi fs ts iv mf ri rn s) uid = Some sc
     \<and> trend sc = calculateTrend cal now (recordStageTransition cal now nid uid un ot oi fs ts iv mf ri rn s) uid"
  by (simp add: recordStageTransition_def getScorecard_def update_conv Let_def
        calculateTrend_scorecardStore split: prod.splits)

text \<open>
  Claim C4. \<open>calculateTrend\<close> is \<open>Stable\<close> whenever the user's violation log holds
  fewer than 5 violations; with 5 or more it is \<open>Improving\<close> iff the unresolved
  violations of the last 7 days are strictly fewer than the older unresolved ones,
  \<open>Declining\<close> iff they are strictly more, and \<open>Stable\<close> iff the counts are equal.
  The trend stored by \<open>recordStageTransition\<close> is this value for the state the call
  leaves.
\<close>

theorem calculateTrend_rule:
  "(length (userLog s uid) < 5 \<longrightarrow> calculateTrend cal now s uid = Stable)
   \<and> (length (userLog s uid) \<ge> 5 \<longrightarrow>
        (calculateTrend cal now s uid = Improving
           \<longleftrightarrow> recentUnresolved cal now s uid < olderUnresolved cal now s uid)
      \<and> (calculateTrend cal now s uid = Declining
           \<longleftrightarrow> recentUnresolved cal now s uid > olderUnresolved cal now s uid)
      \<and> (calculateTrend cal now s uid = Stable
           \<longleftrightarrow> recentUnresolved cal now s uid = olderUnresolved cal now s uid))
   \<and> (\<exists>sc. getScorecard (recordStageTransition cal now nid uid un ot oi fs ts iv mf ri rn s) uid = Some sc
         \<and> trend sc = calculateTrend cal now (recordStageTransition cal now nid uid un ot oi fs ts iv mf ri rn s) uid)"
  using record_trend[of cal now nid uid un ot oi fs ts iv mf ri rn s]
  by (auto simp: calculateTrend_counts)

theorem calculateTrend_rule_witness:
  "length (userLog aliceState ''u1'') < 5
   \<and> calculateTrend utcCalendar 864000002 aliceState ''u1'' = Stable
   \<and> length (userLog trendState ''u1'') \<ge> 5
   \<and> recentUnresolved utcCalendar 864000002 trendState ''u1'' = 2
   \<and> olderUnresolved utcCalendar 864000002 trendState ''u1'' = 3
   \<and> calculateTrend utcCalendar 864000002 trendState ''u1'' = Improving"
proof -
  have a: "length (userLog aliceState ''u1'') < 5"
    by (simp add: userLog_def aliceState_def)
  have b: "length (userLog trendState ''u1'') \<ge> 5"
    by (simp add: userLog_def trendState_def)
  have r: "recentUnresolved utcCalendar 864000002 trendState ''u1'' = 2"
    by (simp add: recentUnresolved_def logViolations_def userLog_def trendState_def
          deref_def mkViolation_def utcCalendar_def)
  have o: "olderUnresolved utcCalendar 864000002 trendState ''u1'' = 3"
    by (simp add: olderUnresolved_def logViolations_def userLog_def trendState_def
          deref_def mkViolation_def utcCalendar_def)
  show ?thesis
    using calculateTrend_rule[where s=aliceState and uid="''u1''" and cal=utcCalendar and now=864000002
        and nid="''v9''" and un="''Alice''" and ot=Contact and oi="''contact-2''" and fs="''lead''"
        and ts="''mql''" and iv=True and mf=None and ri=None and rn=None]
      calculateTrend_rule[where s=trendState and uid="''u1''" and cal=utcCalendar and now=864000002
        and nid="''v9''" and un="''Alice''" and ot=Contact and oi="''contact-2''" and fs="''lead''"
        and ts="''mql''" and iv=True and mf=None and ri=None and rn=None]
      a b r o
    by simp
qed

subsection \<open>Resolving a violation\<close>

lemmas eval_defs = applyCall_def invalidCall_def validCall_def emptyState_def recordStageTransition_def
  getOrCreateScorecard_def getScorecard_def Let_def createEmptyMetrics_def calculateComplianceScore_def
  calculateTrend_def userLog_def truthy_def fieldCount_def determineSeverity_def getCurrentPeriod_def
  utcCalendar_def

lemma deref_markResolved:
  "deref (markResolved now a h) c =
     (if c = a \<and> a < length h then Some ((h ! a)\<lparr>resolved := True, resolvedAt := Some now\<rparr>)
      else deref h c)"
  by (auto simp: deref_def markResolved_def)

lemma findById_markResolved:
  "findById (markResolved now a h) vid vs = findById h vid vs"
proof -
  have "(\<lambda>x. case deref (markResolved now a h) x of None \<Rightarrow> False | Some v \<Rightarrow> v_id v = vid)
        = (\<lambda>x. case deref h x of None \<Rightarrow> False | Some v \<Rightarrow> v_id v = vid)"
    unfolding deref_markResolved by (rule ext) (simp add: deref_def)
  then show ?thesis by (simp add: findById_def)
qed

lemma findById_Some:
  "findById h vid vs = Some a \<Longrightarrow> a \<in> set vs \<and> a < length h \<and> v_id (h ! a) = vid"
  by (auto simp: findById_def find_Some_iff deref_def split: option.splits if_splits)

lemma resolve_absent:
  "findById (heap s) vid (userLog s uid) = None \<Longrightarrow> resolveViolation now uid vid s = (False, s)"
  by (auto simp: resolveViolation_def userLog_def split: option.splits)

lemma resolve_present:
  assumes "findById (heap s) vid (userLog s uid) = Some a"
  shows "resolveViolation now uid vid s =
          (True, s\<lparr>heap := (case getScorecard s uid of
                               None \<Rightarrow> markResolved now a (heap s)
                             | Some sc \<Rightarrow>
                                 (case findById (heap s) vid (violations sc) of
                                    None \<Rightarrow> markResolved now a (heap s)
                                  | Some b \<Rightarrow> markResolved now b (markResolved now a (heap s))))\<rparr>)"
proof -
  from assms obtain vs where vs: "map_of (violationStore s) uid = Some vs"
    by (cases "map_of (violationStore s) uid") (auto simp: userLog_def findById_def)
  with assms have f: "findById (heap s) vid vs = Some a"
    by (simp add: userLog_def)
  show ?thesis
    by (simp add: resolveViolation_def vs f Let_def findById_markResolved getScorecard_def
          split: option.splits)
qed

text \<open>
  Claim C6. When the user's violation log holds no violation with the given id,
  \<open>resolveViolation\<close> returns false and the state is unchanged. When it holds one, at
  address \<open>a\<close>, the call returns true, the two maps are unchanged, the violation at \<open>a\<close> has
  \<open>resolved = True\<close> and \<open>resolvedAt = Some now\<close>, the violation with that id found in
  the scorecard's embedded list (if the scorecard exists and has one) is marked in the same
  way, and no other violation object changes.
\<close>

theorem resolveViolation_effect:
  "(findById (heap s) vid (userLog s uid) = None \<longrightarrow> resolveViolation now uid vid s = (False, s))
   \<and> (\<forall>a. findById (heap s) vid (userLog s uid) = Some a \<longrightarrow>
         (\<exists>s'. resolveViolation now uid vid s = (True, s')
            \<and> scorecardStore s' = scorecardStore s \<and> violationStore s' = violationStore s
            \<and> (\<exists>v. deref (heap s') a = Some v \<and> v_id v = vid \<and> resolved v \<and> resolvedAt v = Some now)
            \<and> (\<forall>sc b. getScorecard s uid = Some sc \<and> findById (heap s) vid (violations sc) = Some b \<longrightarrow>
                  (\<exists>w. deref (heap s') b = Some w \<and> v_id w = vid \<and> resolved w \<and> resolvedAt w = Some now))
            \<and> (\<forall>c. c \<noteq> a
                    \<and> (\<forall>sc. getScorecard s uid = Some sc \<longrightarrow> findById (heap s) vid (violations sc) \<noteq> Some c)
                  \<longrightarrow> deref (heap s') c = deref (heap s) c)))"
proof (intro conjI allI impI)
  assume "findById (heap s) vid (userLog s uid) = None"
  then show "resolveViolation now uid vid s = (False, s)" by (rule resolve_absent)
next
  fix a
  assume a: "findById (heap s) vid (userLog s uid) = Some a"
  note r = resolve_present[OF a, of now]
  from findById_Some[OF a] have a': "a < length (heap s)" "v_id (heap s ! a) = vid" by simp_all
  show "\<exists>s'. resolveViolation now uid vid s = (True, s')
            \<and> scorecardStore s' = scorecardStore s \<and> violationStore s' = violationStore s
            \<and> (\<exists>v. deref (heap s') a = Some v \<and> v_id v = vid \<and> resolved v \<and> resolvedAt v = Some now)
            \<and> (\<forall>sc b. getScorecard s uid = Some sc \<and> findById (heap s) vid (violations sc) = Some b \<longrightarrow>
                  (\<exists>w. deref (heap s') b = Some w \<and> v_id w = vid \<and> resolved w \<and> resolvedAt w = Some now))
            \<and> (\<forall>c. c \<noteq> a
                    \<and> (\<forall>sc. getScorecard s uid = Some sc \<longrightarrow> findById (heap s) vid (violations sc) \<noteq> Some c)
                  \<longrightarrow> deref (heap s') c = deref (heap s) c)"
  proof (cases "getScorecard s uid")
    case None
    then show ?thesis using r a' by (simp add: deref_markResolved)
  next
    case (Some sc)
    show ?thesis
    proof (cases "findById (heap s) vid (violations sc)")
      case None
      then show ?thesis using r a' Some by (simp add: deref_markResolved)
    next
      case (Some b)
      from findById_Some[OF Some] have b': "b < length (heap s)" "v_id (heap s ! b) = vid" by simp_all
      have l: "length (markResolved now a (heap s)) = length (heap s)"
        by (simp add: markResolved_def)
      have n: "markResolved now a (heap s) ! b = (if b = a then (heap s ! a)\<lparr>resolved := True, resolvedAt := Some now\<rparr> else heap s ! b)"
        using a' by (simp add: markResolved_def nth_list_update)
      show ?thesis using r a' b' Some \<open>getScorecard s uid = Some sc\<close> l n
        by (auto simp: deref_markResolved)
    qed
  qed
qed

text \<open>Facts about the state that two recorded invalid transitions produce.\<close>

lemma twoViolations_card:
  "\<exists>sc. getScorecard twoViolations ''u1'' = Some sc \<and> violations sc = [0, 1]"
  by (simp add: twoViolations_def eval_defs)

lemma twoViolations_ids: "map v_id (heap twoViolations) = [''v1'', ''v2'']"
  by (simp add: twoViolations_def eval_defs)

lemma twoViolations_log: "userLog twoViolations ''u1'' = [0, 1]"
  by (simp add: twoViolations_def eval_defs)

theorem resolveViolation_effect_witness:
  "findById (heap twoViolations) ''nope'' (userLog twoViolations ''u1'') = None
   \<and> resolveViolation 5000 ''u1'' ''nope'' twoViolations = (False, twoViolations)
   \<and> findById (heap twoViolations) ''v2'' (userLog twoViolations ''u1'') = Some 1
   \<and> (\<exists>sc. getScorecard twoViolations ''u1'' = Some sc
          \<and> findById (heap twoViolations) ''v2'' (violations sc) = Some 1)
   \<and> (\<exists>s' v. resolveViolation 5000 ''u1'' ''v2'' twoViolations = (True, s')
          \<and> deref (heap s') 1 = Some v \<and> resolved v \<and> resolvedAt v = Some 5000
          \<and> deref (heap s') 0 = deref (heap twoViolations) 0)"
proof -
  obtain v1 v2 where h: "heap twoViolations = [v1, v2]" "v_id v1 = ''v1''" "v_id v2 = ''v2''"
    using twoViolations_ids by (cases "heap twoViolations") auto
  have n: "findById (heap twoViolations) ''nope'' (userLog twoViolations ''u1'') = None"
    by (simp add: twoViolations_log findById_def deref_def h)
  have f: "findById (heap twoViolations) ''v2'' (userLog twoViolations ''u1'') = Some 1"
    by (simp add: twoViolations_log findById_def deref_def h)
  obtain sc where sc: "getScorecard twoViolations ''u1'' = Some sc" "violations sc = [0, 1]"
    using twoViolations_card by auto
  have g: "findById (heap twoViolations) ''v2'' (violations sc) = Some 1"
    by (simp add: sc findById_def deref_def h)
  show ?thesis
    using resolveViolation_effect[of twoViolations "''nope''" "''u1''" 5000]
      resolveViolation_effect[of twoViolations "''v2''" "''u1''" 5000] n f sc g
    by (auto simp del: One_nat_def)
qed


subsection \<open>Queries\<close>

text \<open>
  Claim C7. The queries are meant to be read-only projections. \<open>getScorecard\<close>,
  \<open>getAllScorecards\<close>, \<open>getPortalAlerts\<close> and \<open>getUserAlerts\<close> write nothing, and
  \<open>getUserViolations\<close> with a \<open>resolved\<close> filter sorts a copy. Without a filter,
  \<open>getUserViolations\<close> sorts the array stored in \<^verbatim>\<open>violationStore\<close> in place: on the
  log of two violations recorded at times 1000 and 2000 the stored order \<open>[0, 1]\<close> becomes
  \<open>[1, 0]\<close>.
\<close>

theorem getUserViolations_reorders_log:
  "userLog twoViolations ''u1'' = [0, 1]
   \<and> userLog (snd (getUserViolations twoViolations ''u1'' noOptions)) ''u1'' = [1, 0]
   \<and> userLog (snd (getUserViolations twoViolations ''u1'' (noOptions\<lparr>q_resolved := Some False\<rparr>))) ''u1'' = [0, 1]"
  by (simp add: twoViolations_def eval_defs getUserViolations_def noOptions_def sortNewestFirst_def
        timestampAt_def deref_def)

section \<open>Properties of the alerts service\<close>

lemma delete_distinct_entry:
  assumes "distinct (map fst store)" and "(k, a) \<in> set store"
  shows "AList.delete k store = filter (\<lambda>p. p \<noteq> (k, a)) store"
proof -
  have same: "(case p of (k', _) \<Rightarrow> k \<noteq> k') = (p \<noteq> (k, a))" if "p \<in> set store" for p
  proof (cases p)
    case (Pair k' a')
    then show ?thesis
      using that assms eq_key_imp_eq_value[of store k a a'] by auto
  qed
  show ?thesis
    unfolding AList.delete_eq by (rule filter_cong[OF refl]) (rule same)
qed

lemma cleanupLoop_filter:
  "distinct (map fst store) \<Longrightarrow> distinct (map fst es) \<Longrightarrow> set es \<subseteq> set store \<Longrightarrow>
   cleanupLoop c es store n =
     (filter (\<lambda>p. \<not> (expired c (snd p) \<and> p \<in> set es)) store,
      n + length (filter (\<lambda>p. expired c (snd p)) es))"
proof (induction es arbitrary: store n)
  case Nil
  then show ?case by simp
next
  case (Cons e es)
  obtain k a where e: "e = (k, a)" by (cases e)
  show ?case
  proof (cases "expired c a")
    case True
    have mem: "(k, a) \<in> set store" using Cons.prems(3) e by simp
    have d: "AList.delete k store = filter (\<lambda>p. p \<noteq> (k, a)) store"
      using Cons.prems(1) mem by (rule delete_distinct_entry)
    have d1: "distinct (map fst (AList.delete k store))"
      using Cons.prems(1) by (simp add: distinct_delete)
    have notin: "(k, a) \<notin> set es"
      using Cons.prems(2) e by (auto simp: image_iff)
    have sub: "set es \<subseteq> set (AList.delete k store)"
      using Cons.prems(3) notin unfolding d by auto
    have "cleanupLoop c (e # es) store n = cleanupLoop c es (AList.delete k store) (n + 1)"
      using True e by simp
    also have "\<dots> = (filter (\<lambda>p. \<not> (expired c (snd p) \<and> p \<in> set es)) (AList.delete k store),
                     n + 1 + length (filter (\<lambda>p. expired c (snd p)) es))"
      using Cons.IH[OF d1 _ sub] Cons.prems(2) by simp
    also have "filter (\<lambda>p. \<not> (expired c (snd p) \<and> p \<in> set es)) (AList.delete k store)
               = filter (\<lambda>p. \<not> (expired c (snd p) \<and> p \<in> set (e # es))) store"
      unfolding d using True e by (auto intro: filter_cong)
    finally show ?thesis using True e by simp
  next
    case False
    have sub: "set es \<subseteq> set store" using Cons.prems(3) by simp
    have "cleanupLoop c (e # es) store n = cleanupLoop c es store n"
      using False e by simp
    also have "\<dots> = (filter (\<lambda>p. \<not> (expired c (snd p) \<and> p \<in> set es)) store,
                     n + length (filter (\<lambda>p. expired c (snd p)) es))"
      using Cons.IH[OF Cons.prems(1) _ sub] Cons.prems(2) by simp
    also have "filter (\<lambda>p. \<not> (expired c (snd p) \<and> p \<in> set es)) store
               = filter (\<lambda>p. \<not> (expired c (snd p) \<and> p \<in> set (e # es))) store"
      using False e by (auto intro: filter_cong)
    finally show ?thesis using False e by simp
  qed
qed

text \<open>
  Claim C9. With \<open>cutoff = now - olderThanDays\<close> days, \<open>cleanupOldAlerts\<close> removes from
  \<^verbatim>\<open>alertStore\<close> exactly the alerts whose timestamp is before the cutoff and that are
  acknowledged, keeps the others in their order, and returns the number removed; an
  unacknowledged alert is never removed; the portal and user indices are unchanged. (The keys of a
  \<^verbatim>\<open>Map\<close> are distinct.)
\<close>

theorem cleanupOldAlerts_effect:
  assumes "distinct (map fst (alertStore s))"
  shows "\<exists>n s'. cleanupOldAlerts cal now olderThanDays s = (n, s')
           \<and> alertStore s' =
               filter (\<lambda>(k, a). \<not> (a_timestamp a < addDays cal now (- olderThanDays) \<and> acknowledged a))
                 (alertStore s)
           \<and> n = length (filter (\<lambda>(k, a). a_timestamp a < addDays cal now (- olderThanDays) \<and> acknowledged a)
                           (alertStore s))
           \<and> alertsByPortal s' = alertsByPortal s \<and> alertsByUser s' = alertsByUser s
           \<and> (\<forall>(k, a) \<in> set (alertStore s). \<not> acknowledged a \<longrightarrow> (k, a) \<in> set (alertStore s'))"
proof -
  let ?c = "addDays cal now (- olderThanDays)"
  have l: "cleanupLoop ?c (alertStore s) (alertStore s) 0 =
     (filter (\<lambda>p. \<not> (expired ?c (snd p) \<and> p \<in> set (alertStore s))) (alertStore s),
      0 + length (filter (\<lambda>p. expired ?c (snd p)) (alertStore s)))"
    using assms by (intro cleanupLoop_filter) simp_all
  have f1: "filter (\<lambda>p. \<not> (expired ?c (snd p) \<and> p \<in> set (alertStore s))) (alertStore s)
        = filter (\<lambda>(k, a). \<not> (a_timestamp a < ?c \<and> acknowledged a)) (alertStore s)"
    by (auto intro: filter_cong simp: expired_def)
  have f2: "filter (\<lambda>p. expired ?c (snd p)) (alertStore s)
        = filter (\<lambda>(k, a). a_timestamp a < ?c \<and> acknowledged a) (alertStore s)"
    by (auto intro: filter_cong simp: expired_def)
  have c: "cleanupOldAlerts cal now olderThanDays s =
      (length (filter (\<lambda>(k, a). a_timestamp a < ?c \<and> acknowledged a) (alertStore s)),
       s\<lparr>alertStore := filter (\<lambda>(k, a). \<not> (a_timestamp a < ?c \<and> acknowledged a)) (alertStore s)\<rparr>)"
    unfolding cleanupOldAlerts_def Let_def l f1 f2 by simp
  show ?thesis unfolding c by auto
qed

theorem cleanupOldAlerts_effect_witness:
  "distinct (map fst (alertStore alertsExample))
   \<and> cleanupOldAlerts utcCalendar 3456000000 30 alertsExample =
       (1, alertsExample\<lparr>alertStore := [(''a2'', mkAlert ''a2'' 1 False),
                                         (''a3'', mkAlert ''a3'' 1728000000 True)]\<rparr>)
   \<and> idsOf (alertsByUser (snd (cleanupOldAlerts utcCalendar 3456000000 30 alertsExample))) ''u1''
       = [''a1'', ''a2'', ''a3'']"
proof -
  have h: "distinct (map fst (alertStore alertsExample))"
    by (simp add: alertsExample_def)
  show ?thesis
    using cleanupOldAlerts_effect[OF h, of utcCalendar 3456000000 30] h
    by (auto simp: alertsExample_def mkAlert_def utcCalendar_def idsOf_def)
qed

section \<open>Properties of the validation engine\<close>

text \<open>
  Claim C1. For every request, \<open>isValid\<close> of the result is true exactly when its \<open>errors\<close>
  list is empty; the errors are those of the matching rule's required fields and
  conditions and do not depend on the warnings; when no rule matches the transition the
  errors are empty and \<open>isValid\<close> is true, whatever the warnings.
\<close>

theorem validateStageTransition_isValid:
  "isValid (validateStageTransition bi req) = (errors (validateStageTransition bi req) = [])
   \<and> errors (validateStageTransition bi req) =
       (case getRuleForTransition (objectType req) (currentStage req) (targetStage req) of
          None \<Rightarrow> []
        | Some r \<Rightarrow> validateRequiredFields bi (requiredFields r) (properties req)
                    @ (case conditions r of None \<Rightarrow> []
                       | Some cs \<Rightarrow> validateConditions bi cs (properties req)))
   \<and> (getRuleForTransition (objectType req) (currentStage req) (targetStage req) = None
        \<longrightarrow> errors (validateStageTransition bi req) = [] \<and> isValid (validateStageTransition bi req))"
  by (simp add: validateStageTransition_def Let_def)

theorem validateStageTransition_isValid_witness:
  "getRuleForTransition (objectType backwardRequest) (currentStage backwardRequest)
     (targetStage backwardRequest) = None
   \<and> errors (validateStageTransition idleBuiltins backwardRequest) = []
   \<and> isValid (validateStageTransition idleBuiltins backwardRequest)
   \<and> map w_code (warnings (validateStageTransition idleBuiltins backwardRequest)) = [''BACKWARD_PROGRESSION'']"
proof -
  have h: "getRuleForTransition (objectType backwardRequest) (currentStage backwardRequest)
     (targetStage backwardRequest) = None"
    by (simp add: getRuleForTransition_def getRulesForObjectType_def lifecycleStageRules_def
          backwardRequest_def)
  have w: "map w_code (warnings (validateStageTransition idleBuiltins backwardRequest)) = [''BACKWARD_PROGRESSION'']"
    by (simp add: validateStageTransition_def Let_def pushIfAny_def checkBackwardProgression_def
          checkSkippedStages_def stageOrderFor_def lookupStage_def LIFECYCLE_STAGE_ORDER_def
          backwardRequest_def)
  show ?thesis
    using validateStageTransition_isValid[of idleBuiltins backwardRequest] h w by simp
qed

subsection \<open>Skipped stages\<close>

lemma rank_range:
  "rank (stageOrderFor ot) stage = Some r \<Longrightarrow> 0 \<le> r \<and> r \<le> 7"
  by (auto simp: rank_def stageOrderFor_def LIFECYCLE_STAGE_ORDER_def DEAL_STAGE_ORDER_def
        split: if_splits)

lemma rank_deal_range:
  "rank DEAL_STAGE_ORDER stage = Some r \<Longrightarrow> r \<le> 6"
  by (auto simp: rank_def DEAL_STAGE_ORDER_def split: if_splits)

lemma lookup_ranked:
  "rank stageOrder stage = Some r \<Longrightarrow> lookupStage bi stageOrder stage = Ranked r"
  by (simp add: rank_def lookupStage_def)

lemma lookup_absent:
  "rank stageOrder stage = None \<Longrightarrow>
   lookupStage bi stageOrder stage = Undefined \<or> (\<exists>text. lookupStage bi stageOrder stage = Inherited text)"
  by (simp add: rank_def lookupStage_def split: option.splits)

lemma skippedBetween_ranked:
  "skippedBetween stageOrder (Ranked c) (Ranked t) = stagesBetween stageOrder c t"
  by (simp add: skippedBetween_def stagesBetween_def)

lemma skippedBetween_inherited:
  "skippedBetween stageOrder (Inherited text) y = []" "skippedBetween stageOrder x (Inherited text) = []"
  by (simp_all add: skippedBetween_def split_def)

lemma stages_nonempty:
  assumes "rank (stageOrderFor ot) cur = Some c" and "rank (stageOrderFor ot) tgt = Some t"
    and "t > c + 1"
  shows "stagesBetween (stageOrderFor ot) c t \<noteq> []"
proof -
  have c: "0 \<le> c" using rank_range[OF assms(1)] by simp
  show ?thesis
  proof (cases "ot = Contact")
    case True
    have "t \<le> 7" using rank_range[OF assms(2)] by simp
    then have "\<exists>p \<in> set LIFECYCLE_STAGE_ORDER. c < snd p \<and> snd p < t"
      using c assms(3) by (simp add: LIFECYCLE_STAGE_ORDER_def) arith
    then show ?thesis
      using True by (auto simp: stagesBetween_def stageOrderFor_def filter_empty_conv)
  next
    case False
    then have "rank DEAL_STAGE_ORDER tgt = Some t" using assms(2) by (simp add: stageOrderFor_def)
    then have "t \<le> 6" by (rule rank_deal_range)
    then have "\<exists>p \<in> set DEAL_STAGE_ORDER. c < snd p \<and> snd p < t"
      using c assms(3) by (simp add: DEAL_STAGE_ORDER_def) arith
    then show ?thesis
      using False by (auto simp: stagesBetween_def stageOrderFor_def filter_empty_conv)
  qed
qed

lemma distinct_stageOrder: "distinct (map fst (stageOrderFor ot))"
  by (simp add: stageOrderFor_def LIFECYCLE_STAGE_ORDER_def DEAL_STAGE_ORDER_def)

lemma stages_exact:
  "stage \<in> set (stagesBetween (stageOrderFor ot) c t)
     \<longleftrightarrow> (\<exists>r. rank (stageOrderFor ot) stage = Some r \<and> c < r \<and> r < t)"
  using distinct_stageOrder[of ot]
  by (auto simp: stagesBetween_def rank_def image_iff dest: map_of_SomeD)

lemma backward_code:
  "checkBackwardProgression bi req = Some w \<Longrightarrow> w_code w = ''BACKWARD_PROGRESSION''"
  by (auto simp: checkBackwardProgression_def Let_def split: if_splits)

lemma skipped_warnings:
  "warningsWithCode ''SKIPPED_STAGES'' (validateStageTransition bi req)
     = (case checkSkippedStages bi req of None \<Rightarrow> [] | Some w \<Rightarrow> [w])"
proof -
  have b: "filter (\<lambda>w. w_code w = ''SKIPPED_STAGES'') (pushIfAny (checkBackwardProgression bi req) []) = []"
    by (cases "checkBackwardProgression bi req") (auto simp: pushIfAny_def dest: backward_code)
  have s: "checkSkippedStages bi req = Some w \<Longrightarrow> w_code w = ''SKIPPED_STAGES''" for w
    by (auto simp: checkSkippedStages_def Let_def split: if_splits)
  show ?thesis
    using b s
    by (cases "checkSkippedStages bi req")
      (simp_all add: warningsWithCode_def validateStageTransition_def Let_def pushIfAny_def)
qed

text \<open>
  Claim C5. When both stages have ranks \<open>c\<close> and \<open>t\<close> in the table of the request's object
  type and \<open>t > c + 1\<close>, the result has exactly one \<open>SKIPPED_STAGES\<close> warning, whose message
  joins, in the table's order of declaration, exactly the stages whose rank is strictly
  between \<open>c\<close> and \<open>t\<close>. When one of the two stages is not in the table, the result has no
  \<open>SKIPPED_STAGES\<close> warning.
\<close>

theorem skipped_stages_warning:
  "(\<forall>c t. rank (stageOrderFor (objectType req)) (currentStage req) = Some c
          \<and> rank (stageOrderFor (objectType req)) (targetStage req) = Some t \<and> t > c + 1
        \<longrightarrow> warningsWithCode ''SKIPPED_STAGES'' (validateStageTransition bi req)
              = [skippedWarning (stageOrderFor (objectType req)) c t]
            \<and> (\<forall>stage. stage \<in> set (stagesBetween (stageOrderFor (objectType req)) c t)
                  \<longleftrightarrow> (\<exists>r. rank (stageOrderFor (objectType req)) stage = Some r \<and> c < r \<and> r < t)))
   \<and> (rank (stageOrderFor (objectType req)) (currentStage req) = None
        \<or> rank (stageOrderFor (objectType req)) (targetStage req) = None
        \<longrightarrow> warningsWithCode ''SKIPPED_STAGES'' (validateStageTransition bi req) = [])"
proof -
  let ?table = "stageOrderFor (objectType req)"
  have 1: "warningsWithCode ''SKIPPED_STAGES'' (validateStageTransition bi req)
              = [skippedWarning ?table c t]"
    if a: "rank ?table (currentStage req) = Some c" "rank ?table (targetStage req) = Some t"
      "t > c + 1" for c t
  proof -
    have ne: "stagesBetween ?table c t \<noteq> []"
      using a by (rule stages_nonempty)
    have "checkSkippedStages bi req = Some (skippedWarning ?table c t)"
      using a(3) ne
      by (simp add: checkSkippedStages_def Let_def skippedWarning_def skippedBetween_ranked
            lookup_ranked[OF a(1)] lookup_ranked[OF a(2)])
    then show ?thesis by (simp add: skipped_warnings)
  qed
  have 2: "warningsWithCode ''SKIPPED_STAGES'' (validateStageTransition bi req) = []"
    if "rank ?table (currentStage req) = None \<or> rank ?table (targetStage req) = None"
  proof -
    have "checkSkippedStages bi req = None"
      using that lookup_absent[of ?table "currentStage req" bi] lookup_absent[of ?table "targetStage req" bi]
      by (auto simp: checkSkippedStages_def Let_def skippedBetween_inherited)
    then show ?thesis by (simp add: skipped_warnings)
  qed
  show ?thesis using 1 2 stages_exact by blast
qed

theorem skipped_stages_warning_witness:
  "rank (stageOrderFor (objectType skippingRequest)) (currentStage skippingRequest) = Some 0
   \<and> rank (stageOrderFor (objectType skippingRequest)) (targetStage skippingRequest) = Some 4
   \<and> (4::int) > 0 + 1
   \<and> map w_message (warningsWithCode ''SKIPPED_STAGES'' (validateStageTransition idleBuiltins skippingRequest))
       = [''Skipping stages: lead, marketingqualifiedlead, salesqualifiedlead'']
   \<and> rank (stageOrderFor (objectType customStageRequest)) (targetStage customStageRequest) = None
   \<and> warningsWithCode ''SKIPPED_STAGES'' (validateStageTransition idleBuiltins customStageRequest) = []
   \<and> rank (stageOrderFor (objectType inheritedRequest)) (currentStage inheritedRequest) = None
   \<and> warningsWithCode ''SKIPPED_STAGES'' (validateStageTransition idleBuiltins inheritedRequest) = []"
proof -
  have c: "rank (stageOrderFor (objectType skippingRequest)) (currentStage skippingRequest) = Some 0"
    by (simp add: rank_def stageOrderFor_def LIFECYCLE_STAGE_ORDER_def skippingRequest_def)
  have t: "rank (stageOrderFor (objectType skippingRequest)) (targetStage skippingRequest) = Some 4"
    by (simp add: rank_def stageOrderFor_def LIFECYCLE_STAGE_ORDER_def skippingRequest_def)
  have n: "rank (stageOrderFor (objectType customStageRequest)) (targetStage customStageRequest) = None"
    by (simp add: rank_def stageOrderFor_def DEAL_STAGE_ORDER_def customStageRequest_def)
  have i: "rank (stageOrderFor (objectType inheritedRequest)) (currentStage inheritedRequest) = None"
    by (simp add: rank_def stageOrderFor_def LIFECYCLE_STAGE_ORDER_def inheritedRequest_def)
  have m: "w_message (skippedWarning (stageOrderFor (objectType skippingRequest)) 0 4)
       = ''Skipping stages: lead, marketingqualifiedlead, salesqualifiedlead''"
    by (simp add: skippedWarning_def stagesBetween_def stageOrderFor_def LIFECYCLE_STAGE_ORDER_def
          skippingRequest_def)
  show ?thesis
    using skipped_stages_warning[of skippingRequest idleBuiltins]
      skipped_stages_warning[of customStageRequest idleBuiltins]
      skipped_stages_warning[of inheritedRequest idleBuiltins] c t n i m
    by simp
qed

end
